theory Spec2Isabelle
  imports Main "HOL-Library.Sublist" "HOL-Library.AList"
begin

section \<open>Python strings\<close>

text \<open>
  A Python \<^verbatim>\<open>str\<close> is modelled as a \<^typ>\<open>string\<close> holding its UTF-8 bytes. Every
  needle the program searches for is ASCII, and an ASCII byte never occurs inside a
  multi-byte UTF-8 sequence, so prefix and substring tests on the bytes agree with the
  tests on code points.
\<close>

text \<open>\<^verbatim>\<open>s.startswith(p)\<close>\<close>

fun startswith :: "string \<Rightarrow> string \<Rightarrow> bool" where
  "startswith s [] = True"
| "startswith [] (c # p) = False"
| "startswith (d # s) (c # p) = (d = c \<and> startswith s p)"

text \<open>\<^verbatim>\<open>s.startswith((p1, p2, ...))\<close>: a tuple of prefixes\<close>

definition startswith_any :: "string \<Rightarrow> string list \<Rightarrow> bool" where
  "startswith_any s ps = list_ex (startswith s) ps"

text \<open>\<^verbatim>\<open>p in s\<close> for two strings: substring containment\<close>

fun str_in :: "string \<Rightarrow> string \<Rightarrow> bool" where
  "str_in p [] = (p = [])"
| "str_in p (c # s) = (startswith (c # s) p \<or> str_in p s)"

text \<open>\<^verbatim>\<open>sep.join(xs)\<close>\<close>

fun join :: "string \<Rightarrow> string list \<Rightarrow> string" where
  "join sep [] = []"
| "join sep [s] = s"
| "join sep (s # t # rest) = s @ sep @ join sep (t # rest)"

text \<open>\<^verbatim>\<open>s.rsplit(":", 1)\<close> on a string that contains the separator: the text before
  the last separator and the text after it.\<close>

definition rsplit1 :: "char \<Rightarrow> string \<Rightarrow> string \<times> string" where
  "rsplit1 c s =
     (rev (tl (dropWhile (\<lambda>d. d \<noteq> c) (rev s))), rev (takeWhile (\<lambda>d. d \<noteq> c) (rev s)))"

text \<open>\<^verbatim>\<open>str(n)\<close> for an integer, as an f-string formats a status code\<close>

fun str_nat :: "nat \<Rightarrow> string" where
  "str_nat n =
     (if n < 10 then [char_of (48 + n)]
      else str_nat (n div 10) @ [char_of (48 + n mod 10)])"

definition str_int :: "int \<Rightarrow> string" where
  "str_int i = (if i < 0 then ''-'' @ str_nat (nat (- i)) else str_nat (nat i))"

section \<open>Data model (tteck.py)\<close>

text \<open>
  \<^verbatim>\<open>NodeInfo\<close>. The metric set is kept as the list of its elements in the order in
  which the set iterates (membership is \<open>m \<in> set (metrics n)\<close>); the \<^verbatim>\<open>hardware\<close> dict is
  an association list in insertion order.
\<close>

record NodeInfo =
  hostname :: string
  ip :: string
  port :: string
  metrics :: "string list"
  hardware :: "(string \<times> bool) list"

text \<open>\<^verbatim>\<open>node.hardware.get(k)\<close> used as a condition: a missing key gives \<^verbatim>\<open>None\<close>,
  which is falsy.\<close>

definition hardware_get :: "NodeInfo \<Rightarrow> string \<Rightarrow> bool" where
  "hardware_get node k = (map_of (hardware node) k = Some True)"

text \<open>
  The state of a \<^verbatim>\<open>ScryptedDashboardGenerator\<close>: \<^verbatim>\<open>nodes\<close> is an insertion-ordered
  dict, \<^verbatim>\<open>all_metrics\<close> a set (kept as the list of its elements in iteration order). The \<^verbatim>\<open>prometheus_url\<close>
  only selects the server, which is a parameter of the operations below.
\<close>

record generator =
  nodes :: "(string \<times> NodeInfo) list"
  all_metrics :: "string list"
  panel_id :: int
  current_y :: int

definition init_generator :: generator where
  "init_generator = \<lparr>nodes = [], all_metrics = [], panel_id = 1, current_y = 0\<rparr>"

subsection \<open>Hardware predicate table (\<^verbatim>\<open>_detect_hardware\<close>)\<close>

definition hardware_flags :: "string list \<Rightarrow> (string \<times> bool) list" where
  "hardware_flags instance_metrics =
     [(''nvidia_gpu'', list_ex (\<lambda>m. startswith_any m [''nvidia_'', ''DCGM_'']) instance_metrics),
      (''intel_gpu'', list_ex (\<lambda>m. str_in ''intel_gpu'' m \<or> str_in ''igpu_'' m) instance_metrics),
      (''intel_npu'', ''intel_npu_usage_percent'' \<in> set instance_metrics),
      (''mac'', list_ex (\<lambda>m. startswith m ''mac_'') instance_metrics),
      (''node_exporter'', list_ex (\<lambda>m. startswith m ''node_'') instance_metrics),
      (''telegraf'', list_ex (\<lambda>m. startswith_any m [''cpu_'', ''disk_'', ''mem_'']) instance_metrics),
      (''has_temp'', list_ex (\<lambda>m. str_in ''temp'' m) instance_metrics),
      (''has_power'', list_ex (\<lambda>m. str_in ''power'' m \<or> str_in ''watts'' m) instance_metrics),
      (''has_process'', list_ex (\<lambda>m. str_in ''process'' m) instance_metrics)]"

section \<open>Metric catalog client (tteck.py)\<close>

text \<open>
  The outcome of one \<^verbatim>\<open>requests.get\<close>/\<^verbatim>\<open>requests.post\<close>: the call raises (connection
  refused, timeout, ...; the string is \<^verbatim>\<open>str(e)\<close>), or it returns a response with a
  status code and a body. Reading the body with \<^verbatim>\<open>response.json()\<close> and taking its
  members apart either raises (not JSON, or not of the expected shape) or gives the
  decoded value.
\<close>

datatype 'a decoded = Invalid string | Json 'a

datatype 'a reply = Failure string | Response int "'a decoded"

text \<open>One element of an instant-query result: its label dict \<^verbatim>\<open>item.get("metric", {})\<close>.\<close>

type_synonym sample = "(string \<times> string) list"

text \<open>The JSON envelope of the instant-query endpoint: \<^verbatim>\<open>data.get("status")\<close> and
  the member \<^verbatim>\<open>result\<close> of \<^verbatim>\<open>data.get("data", {})\<close>, each absent or present.\<close>

datatype envelope = Envelope (env_status: "string option") (env_result: "sample list option")

text \<open>
  What surrounds the program in one run. First the Prometheus server, as the answers it
  gives to the four requests the program sends: \<^verbatim>\<open>/-/healthy\<close>,
  \<^verbatim>\<open>/api/v1/label/__name__/values\<close>, \<^verbatim>\<open>/api/v1/label/instance/values\<close> (the decoded
  value is the member \<^verbatim>\<open>data\<close>, absent or a list of strings) and \<^verbatim>\<open>/api/v1/query\<close> by
  query expression. Then the one property of the running Python process that the result
  depends on, the order in which a set of strings iterates (it follows the string hashes of
  the process): \<open>set_rank xs s\<close> is the rank at which the set built by adding the
  distinct strings \<open>xs\<close> in this order yields its element \<open>s\<close>. Every iteration order of
  every set is the order of some \<open>set_rank\<close>.
\<close>

record prometheus =
  healthy :: "unit reply"
  label_names :: "string list option reply"
  label_instances :: "string list option reply"
  instant_query :: "string \<Rightarrow> envelope reply"
  set_rank :: "string list \<Rightarrow> string \<Rightarrow> nat"

text \<open>\<^verbatim>\<open>set(xs)\<close>, or the set built by adding the elements of \<open>xs\<close> one by one, as the
  list of its elements in iteration order.\<close>

definition set_of :: "prometheus \<Rightarrow> string list \<Rightarrow> string list" where
  "set_of prom xs = sort_key (set_rank prom (remdups xs)) (remdups xs)"

text \<open>\<^verbatim>\<open>_query_metric\<close>: the bare \<^verbatim>\<open>except: pass\<close> turns every exception of the
  \<^verbatim>\<open>try\<close> block into the final \<^verbatim>\<open>return None\<close>.\<close>

definition query_metric :: "prometheus \<Rightarrow> string \<Rightarrow> sample list option" where
  "query_metric prom query =
     (case instant_query prom query of
        Failure e \<Rightarrow> None
      | Response status_code body \<Rightarrow>
          if status_code = 200 then
            (case body of
               Invalid e \<Rightarrow> None
             | Json data \<Rightarrow>
                 if env_status data = Some ''success''
                 then Some (case env_result data of None \<Rightarrow> [] | Some result \<Rightarrow> result)
                 else None)
          else None)"

text \<open>\<^verbatim>\<open>if result:\<close> on the value of \<^verbatim>\<open>_query_metric\<close>: \<^verbatim>\<open>None\<close> and the empty
  list are both falsy.\<close>

definition truthy :: "sample list option \<Rightarrow> bool" where
  "truthy result = (case result of None \<Rightarrow> False | Some items \<Rightarrow> items \<noteq> [])"

text \<open>\<^verbatim>\<open>_discover_metrics\<close>: on any failure the catalog keeps its value.\<close>

definition discover_metrics :: "prometheus \<Rightarrow> generator \<Rightarrow> generator" where
  "discover_metrics prom g =
     (case label_names prom of
        Failure e \<Rightarrow> g
      | Response status_code body \<Rightarrow>
          if status_code = 200 then
            (case body of
               Invalid e \<Rightarrow> g
             | Json d \<Rightarrow> g\<lparr>all_metrics := set_of prom (case d of None \<Rightarrow> [] | Some names \<Rightarrow> names)\<rparr>)
          else g)"

section \<open>Node identification and hardware detection (tteck.py)\<close>

text \<open>The inner loop of \<^verbatim>\<open>_get_hostname_for_ip\<close> over the items of one result.\<close>

fun hostname_of_items :: "sample list \<Rightarrow> string option" where
  "hostname_of_items [] = None"
| "hostname_of_items (labels # rest) =
     (case map_of labels ''nodename'' of
        Some v \<Rightarrow> Some v
      | None \<Rightarrow>
          (case map_of labels ''host'' of
             Some v \<Rightarrow> Some v
           | None \<Rightarrow> hostname_of_items rest))"

text \<open>The outer loop of \<^verbatim>\<open>_get_hostname_for_ip\<close> over the candidate metrics.\<close>

fun hostname_loop :: "prometheus \<Rightarrow> generator \<Rightarrow> string \<Rightarrow> string list \<Rightarrow> string option" where
  "hostname_loop prom g addr [] = None"
| \<open>hostname_loop prom g addr (metric # rest) =
     (if metric \<in> set (all_metrics g) then
        (case query_metric prom (metric @ ''{instance=~".*'' @ addr @ ''.*"}'') of
           None \<Rightarrow> hostname_loop prom g addr rest
         | Some result \<Rightarrow>
             (case hostname_of_items result of
                Some v \<Rightarrow> Some v
              | None \<Rightarrow> hostname_loop prom g addr rest))
      else hostname_loop prom g addr rest)\<close>

definition get_hostname_for_ip :: "prometheus \<Rightarrow> generator \<Rightarrow> string \<Rightarrow> string option" where
  "get_hostname_for_ip prom g addr = hostname_loop prom g addr [''node_uname_info'', ''host'']"

text \<open>The body of the loop of \<^verbatim>\<open>_identify_nodes\<close> for one instance string.
  \<^verbatim>\<open>self.nodes[instance] = node\<close> replaces an entry in place or appends a new one.\<close>

definition identify_instance :: "prometheus \<Rightarrow> string \<Rightarrow> generator \<Rightarrow> generator" where
  "identify_instance prom instance g =
     (if str_in '':'' instance then
        (let (addr, prt) = rsplit1 (CHR '':'') instance;
             hn = (case get_hostname_for_ip prom g addr of
                     None \<Rightarrow> addr
                   | Some v \<Rightarrow> if v \<noteq> [] then v else addr);
             node = \<lparr>hostname = hn, ip = addr, port = prt, metrics = [], hardware = []\<rparr>
         in g\<lparr>nodes := AList.update instance node (nodes g)\<rparr>)
      else g)"

fun identify_loop :: "prometheus \<Rightarrow> string list \<Rightarrow> generator \<Rightarrow> generator" where
  "identify_loop prom [] g = g"
| "identify_loop prom (instance # rest) g = identify_loop prom rest (identify_instance prom instance g)"

definition identify_nodes :: "prometheus \<Rightarrow> generator \<Rightarrow> generator" where
  "identify_nodes prom g =
     (case label_instances prom of
        Failure e \<Rightarrow> g
      | Response status_code body \<Rightarrow>
          if status_code = 200 then
            (case body of
               Invalid e \<Rightarrow> g
             | Json d \<Rightarrow> identify_loop prom (case d of None \<Rightarrow> [] | Some instances \<Rightarrow> instances) g)
          else g)"

text \<open>The body of the loop of \<^verbatim>\<open>_detect_hardware\<close> for one node: one scoped instant
  query per catalog metric, then the flag table.\<close>

definition detect_node :: "prometheus \<Rightarrow> string list \<Rightarrow> string \<Rightarrow> NodeInfo \<Rightarrow> NodeInfo" where
  \<open>detect_node prom catalog instance node =
     (let instance_metrics =
            set_of prom
              (filter (\<lambda>metric. truthy (query_metric prom (metric @ ''{instance="'' @ instance @ ''"}'')))
                 catalog)
      in node\<lparr>metrics := instance_metrics, hardware := hardware_flags instance_metrics\<rparr>)\<close>

definition detect_hardware :: "prometheus \<Rightarrow> generator \<Rightarrow> generator" where
  "detect_hardware prom g =
     g\<lparr>nodes := map (\<lambda>(instance, node). (instance, detect_node prom (all_metrics g) instance node))
                  (nodes g)\<rparr>"

section \<open>Dashboard document (tteck.py)\<close>

text \<open>
  A panel is a dict; the model keeps the keys the operations read or compute: \<^verbatim>\<open>id\<close>,
  \<^verbatim>\<open>title\<close>, \<^verbatim>\<open>type\<close>, the \<^verbatim>\<open>uid\<close> of \<^verbatim>\<open>datasource\<close> (absent on a row separator),
  \<^verbatim>\<open>gridPos\<close>, \<^verbatim>\<open>targets\<close> and the \<^verbatim>\<open>unit\<close> of \<^verbatim>\<open>fieldConfig.defaults\<close>. The remaining
  keys (thresholds, drawing style, options, transformations) are literals that no
  operation reads.
\<close>

record grid_pos =
  gp_h :: int
  gp_w :: int
  gp_x :: int
  gp_y :: int

record target =
  expr :: string
  legendFormat :: "string option"
  format :: "string option"

record panel =
  id_panel :: int
  title :: string
  type_panel :: string
  datasource :: "string option"
  gridPos :: grid_pos
  targets :: "target list"
  field_unit :: "string option"

record dashboard =
  title_dashboard :: string
  refresh :: string
  uid :: string
  panels :: "panel list"

definition legend :: "string \<Rightarrow> string \<Rightarrow> target" where
  "legend e l = \<lparr>expr = e, legendFormat = Some l, format = None\<rparr>"

text \<open>\<^verbatim>\<open>item.get("metric", {}).get(k, "")\<close>\<close>

definition label :: "sample \<Rightarrow> string \<Rightarrow> string" where
  "label item k = (case map_of item k of None \<Rightarrow> [] | Some v \<Rightarrow> v)"

subsection \<open>Capability checks\<close>

definition has_any_gpu :: "generator \<Rightarrow> bool" where
  "has_any_gpu g =
     list_ex (\<lambda>(instance, node).
        hardware_get node ''nvidia_gpu'' \<or> hardware_get node ''intel_gpu''
        \<or> hardware_get node ''intel_npu''
        \<or> (hardware_get node ''mac'' \<and> ''mac_gpu_usage_percent'' \<in> set (metrics node)))
      (nodes g)"

definition has_temperature :: "generator \<Rightarrow> bool" where
  "has_temperature g = list_ex (\<lambda>(instance, node). hardware_get node ''has_temp'') (nodes g)"

definition has_power :: "generator \<Rightarrow> bool" where
  "has_power g = list_ex (\<lambda>(instance, node). hardware_get node ''has_power'') (nodes g)"

definition has_npu :: "generator \<Rightarrow> bool" where
  "has_npu g = list_ex (\<lambda>(instance, node). hardware_get node ''intel_npu'') (nodes g)"

definition has_disk_metrics :: "generator \<Rightarrow> bool" where
  "has_disk_metrics g = list_ex (\<lambda>m. str_in ''disk'' m) (all_metrics g)"

definition has_network_metrics :: "generator \<Rightarrow> bool" where
  "has_network_metrics g = list_ex (\<lambda>m. str_in ''network'' m \<or> str_in ''net_'' m) (all_metrics g)"

definition has_process_metrics :: "generator \<Rightarrow> bool" where
  "has_process_metrics g = list_ex (\<lambda>(instance, node). hardware_get node ''has_process'') (nodes g)"

subsection \<open>Target builders\<close>

text \<open>\<^verbatim>\<open>for instance, node in self.nodes.items(): ...\<close> with a body that appends to the
  list of targets: \<open>body instance node\<close> is what one pass appends.\<close>

fun for_nodes ::
  "(string \<Rightarrow> NodeInfo \<Rightarrow> target list) \<Rightarrow> (string \<times> NodeInfo) list \<Rightarrow> target list \<Rightarrow> target list" where
  "for_nodes body [] acc = acc"
| "for_nodes body ((instance, node) # rest) acc = for_nodes body rest (acc @ body instance node)"

definition temperature_targets_of :: "string \<Rightarrow> NodeInfo \<Rightarrow> target list" where
  \<open>temperature_targets_of instance node =
     (if ''node_hwmon_temp_celsius'' \<in> set (metrics node)
      then [legend (''node_hwmon_temp_celsius{instance="'' @ instance @ ''",sensor="temp1"}'')
                   (hostname node @ '' CPU'')]
      else [])
     @ (if ''mac_cpu_temperature_celsius'' \<in> set (metrics node)
        then [legend (''mac_cpu_temperature_celsius{instance="'' @ instance @ ''"}'')
                     (hostname node @ '' Mac CPU'')]
        else [])\<close>

definition build_temperature_targets :: "generator \<Rightarrow> target list" where
  "build_temperature_targets g = for_nodes temperature_targets_of (nodes g) []"

definition power_targets_of :: "string \<Rightarrow> NodeInfo \<Rightarrow> target list" where
  \<open>power_targets_of instance node =
     (if ''mac_cpu_power_watts'' \<in> set (metrics node)
      then [legend (''mac_cpu_power_watts{instance="'' @ instance @ ''"}'')
                   (hostname node @ '' CPU Power'')]
      else [])
     @ (if ''mac_gpu_power_watts'' \<in> set (metrics node)
        then [legend (''mac_gpu_power_watts{instance="'' @ instance @ ''"}'')
                     (hostname node @ '' GPU Power'')]
        else [])
     @ (if ''mac_ane_power_watts'' \<in> set (metrics node)
        then [legend (''mac_ane_power_watts{instance="'' @ instance @ ''"}'')
                     (hostname node @ '' ANE Power'')]
        else [])\<close>

definition build_power_targets :: "generator \<Rightarrow> target list" where
  "build_power_targets g = for_nodes power_targets_of (nodes g) []"

definition cpu_targets_of :: "string \<Rightarrow> NodeInfo \<Rightarrow> target list" where
  \<open>cpu_targets_of instance node =
     (if ''cpu_usage_idle'' \<in> set (metrics node)
      then [legend (''100 - cpu_usage_idle{cpu="cpu-total",instance="'' @ instance @ ''"}'')
                   (hostname node @ '' CPU'')]
      else if ''node_cpu_seconds_total'' \<in> set (metrics node)
      then [legend (''100 - (avg by(instance) (rate(node_cpu_seconds_total{mode="idle",instance="''
                      @ instance @ ''"}[5m])) * 100)'')
                   (hostname node @ '' CPU'')]
      else if hardware_get node ''mac'' \<and> ''mac_pcpu_usage_percent'' \<in> set (metrics node)
      then [legend (''(mac_pcpu_usage_percent{instance="'' @ instance
                      @ ''"} + mac_ecpu_usage_percent{instance="'' @ instance @ ''"}) / 2'')
                   (hostname node @ '' Mac CPU'')]
      else [])\<close>

definition build_cpu_targets :: "generator \<Rightarrow> target list" where
  "build_cpu_targets g = for_nodes cpu_targets_of (nodes g) []"

definition memory_targets_of :: "string \<Rightarrow> NodeInfo \<Rightarrow> target list" where
  \<open>memory_targets_of instance node =
     (if ''node_memory_MemAvailable_bytes'' \<in> set (metrics node)
      then [legend (''(1 - (node_memory_MemAvailable_bytes{instance="'' @ instance
                      @ ''"} / node_memory_MemTotal_bytes{instance="'' @ instance @ ''"})) * 100'')
                   (hostname node @ '' Memory'')]
      else if ''mem_used_percent'' \<in> set (metrics node)
      then [legend (''mem_used_percent{instance="'' @ instance @ ''"}'')
                   (hostname node @ '' Memory'')]
      else [])\<close>

definition build_memory_targets :: "generator \<Rightarrow> target list" where
  "build_memory_targets g = for_nodes memory_targets_of (nodes g) []"

definition gpu_targets_of :: "string \<Rightarrow> NodeInfo \<Rightarrow> target list" where
  \<open>gpu_targets_of instance node =
     (if hardware_get node ''nvidia_gpu'' \<and> ''DCGM_FI_DEV_GPU_UTIL'' \<in> set (metrics node)
      then [legend (''DCGM_FI_DEV_GPU_UTIL{instance="'' @ instance @ ''"}'')
                   (hostname node @ '' NVIDIA GPU'')]
      else [])
     @ (if hardware_get node ''intel_gpu'' then
          (let intel_metrics =
                 filter (\<lambda>m. str_in ''igpu_engines'' m \<or> str_in ''intel_gpu'' m) (metrics node)
           in if intel_metrics \<noteq> [] then
                [legend (''max by (instance) (''
                           @ join '' or ''
                               (map (\<lambda>m. m @ ''{instance="'' @ instance @ ''"}'') (take 4 intel_metrics))
                           @ '')'')
                        (hostname node @ '' Intel GPU'')]
              else [])
        else [])
     @ (if hardware_get node ''intel_npu''
        then [legend (''intel_npu_usage_percent{instance="'' @ instance @ ''"}'')
                     (hostname node @ '' Intel NPU'')]
        else [])
     @ (if hardware_get node ''mac'' then
          (if ''mac_gpu_usage_percent'' \<in> set (metrics node)
           then [legend (''mac_gpu_usage_percent{instance="'' @ instance @ ''"}'')
                        (hostname node @ '' Mac GPU'')]
           else [])
          @ (if ''mac_ane_usage_percent'' \<in> set (metrics node)
             then [legend (''mac_ane_usage_percent{instance="'' @ instance @ ''"}'')
                          (hostname node @ '' Neural Engine'')]
             else [])
        else [])\<close>

definition build_gpu_targets :: "generator \<Rightarrow> target list" where
  "build_gpu_targets g = for_nodes gpu_targets_of (nodes g) []"

definition disk_io_targets_of :: "prometheus \<Rightarrow> string \<Rightarrow> NodeInfo \<Rightarrow> target list" where
  \<open>disk_io_targets_of prom instance node =
     (if ''diskio_read_bytes'' \<in> set (metrics node) then
        (case query_metric prom (''diskio_read_bytes{instance="'' @ instance @ ''"}'') of
           None \<Rightarrow> []
         | Some result \<Rightarrow>
             concat (map (\<lambda>item.
               (let disk_name = label item ''name''
                in if disk_name \<noteq> [] \<and> \<not> startswith disk_name ''loop'' then
                     [legend (''rate(diskio_read_bytes{instance="'' @ instance @ ''",name="''
                                @ disk_name @ ''"}[5m])'')
                             (hostname node @ '' '' @ disk_name @ '' Read''),
                      legend (''rate(diskio_write_bytes{instance="'' @ instance @ ''",name="''
                                @ disk_name @ ''"}[5m])'')
                             (hostname node @ '' '' @ disk_name @ '' Write'')]
                   else [])) result))
      else [])\<close>

definition build_disk_io_targets :: "prometheus \<Rightarrow> generator \<Rightarrow> target list" where
  "build_disk_io_targets prom g = for_nodes (disk_io_targets_of prom) (nodes g) []"

definition disk_usage_targets_of :: "prometheus \<Rightarrow> string \<Rightarrow> NodeInfo \<Rightarrow> target list" where
  \<open>disk_usage_targets_of prom instance node =
     (if ''node_filesystem_size_bytes'' \<in> set (metrics node) then
        (case query_metric prom
                (''node_filesystem_size_bytes{instance="'' @ instance @ ''",fstype!="tmpfs"}'') of
           None \<Rightarrow> []
         | Some result \<Rightarrow>
             concat (map (\<lambda>item.
               (let mount = label item ''mountpoint''
                in if mount \<noteq> [] \<and> mount \<in> set [''/'', ''/home'', ''/var'', ''/mnt''] then
                     [legend (''(1 - node_filesystem_avail_bytes{instance="'' @ instance
                                @ ''",mountpoint="'' @ mount
                                @ ''"} / node_filesystem_size_bytes{instance="'' @ instance
                                @ ''",mountpoint="'' @ mount @ ''"}) * 100'')
                             (hostname node @ '' '' @ mount)]
                   else [])) result))
      else [])\<close>

text \<open>\<^verbatim>\<open>return targets[:6]\<close>\<close>

definition build_disk_usage_targets :: "prometheus \<Rightarrow> generator \<Rightarrow> target list" where
  "build_disk_usage_targets prom g = take 6 (for_nodes (disk_usage_targets_of prom) (nodes g) [])"

text \<open>The inner loop stops (\<^verbatim>\<open>break\<close>) at the first device that is kept.\<close>

definition network_targets_of :: "prometheus \<Rightarrow> string \<Rightarrow> NodeInfo \<Rightarrow> target list" where
  \<open>network_targets_of prom instance node =
     (if ''node_network_receive_bytes_total'' \<in> set (metrics node) then
        (case query_metric prom (''node_network_receive_bytes_total{instance="'' @ instance @ ''"}'') of
           None \<Rightarrow> []
         | Some result \<Rightarrow>
             (case filter (\<lambda>device. device \<noteq> [] \<and> \<not> startswith_any device [''lo'', ''docker'', ''veth''])
                     (map (\<lambda>item. label item ''device'') result) of
                [] \<Rightarrow> []
              | device # others \<Rightarrow>
                  [legend (''rate(node_network_receive_bytes_total{instance="'' @ instance
                             @ ''",device="'' @ device @ ''"}[5m])'')
                          (hostname node @ '' '' @ device @ '' RX''),
                   legend (''rate(node_network_transmit_bytes_total{instance="'' @ instance
                             @ ''",device="'' @ device @ ''"}[5m])'')
                          (hostname node @ '' '' @ device @ '' TX'')]))
      else [])\<close>

definition build_network_targets :: "prometheus \<Rightarrow> generator \<Rightarrow> target list" where
  "build_network_targets prom g = for_nodes (network_targets_of prom) (nodes g) []"

definition build_process_targets :: "target list" where
  "build_process_targets =
     [\<lparr>expr = ''topk(10, top_process_cpu_percent)'', legendFormat = None, format = Some ''table''\<rparr>,
      \<lparr>expr = ''topk(10, top_process_memory_percent)'', legendFormat = None, format = Some ''table''\<rparr>]"

subsection \<open>Title literals\<close>

text \<open>The pictographs that open the titles, as their UTF-8 bytes: U+1F3AF, U+1F680,
  U+1F4BB, U+1F4BE, U+1F310, U+1F4CA, U+1F321 U+FE0F, U+26A1, U+1F9E0, U+1F525.\<close>

definition sym_dart :: string where "sym_dart = [CHR 0xF0, CHR 0x9F, CHR 0x8E, CHR 0xAF]"
definition sym_rocket :: string where "sym_rocket = [CHR 0xF0, CHR 0x9F, CHR 0x9A, CHR 0x80]"
definition sym_laptop :: string where "sym_laptop = [CHR 0xF0, CHR 0x9F, CHR 0x92, CHR 0xBB]"
definition sym_floppy :: string where "sym_floppy = [CHR 0xF0, CHR 0x9F, CHR 0x92, CHR 0xBE]"
definition sym_globe :: string where "sym_globe = [CHR 0xF0, CHR 0x9F, CHR 0x8C, CHR 0x90]"
definition sym_chart :: string where "sym_chart = [CHR 0xF0, CHR 0x9F, CHR 0x93, CHR 0x8A]"
definition sym_thermometer :: string where
  "sym_thermometer = [CHR 0xF0, CHR 0x9F, CHR 0x8C, CHR 0xA1, CHR 0xEF, CHR 0xB8, CHR 0x8F]"
definition sym_high_voltage :: string where "sym_high_voltage = [CHR 0xE2, CHR 0x9A, CHR 0xA1]"
definition sym_brain :: string where "sym_brain = [CHR 0xF0, CHR 0x9F, CHR 0xA7, CHR 0xA0]"
definition sym_fire :: string where "sym_fire = [CHR 0xF0, CHR 0x9F, CHR 0x94, CHR 0xA5]"

subsection \<open>Panel templates\<close>

text \<open>\<^verbatim>\<open>_cpu_panel_template\<close> reads \<^verbatim>\<open>self.panel_id\<close> and leaves it as it is.\<close>

definition cpu_panel_template :: "generator \<Rightarrow> string \<Rightarrow> target list \<Rightarrow> grid_pos \<Rightarrow> panel" where
  "cpu_panel_template g ttl tgts gp =
     \<lparr>id_panel = panel_id g, title = ttl, type_panel = ''timeseries'',
      datasource = Some ''prometheus-uid'', gridPos = gp, targets = tgts,
      field_unit = Some ''percent''\<rparr>"

definition gpu_panel_template :: "generator \<Rightarrow> string \<Rightarrow> target list \<Rightarrow> grid_pos \<Rightarrow> panel" where
  "gpu_panel_template g ttl tgts gp = cpu_panel_template g ttl tgts gp"

definition memory_panel_template :: "generator \<Rightarrow> string \<Rightarrow> target list \<Rightarrow> grid_pos \<Rightarrow> panel" where
  "memory_panel_template g ttl tgts gp = cpu_panel_template g ttl tgts gp"

text \<open>The other templates first do \<^verbatim>\<open>self.panel_id += 1\<close> and then use
  \<^verbatim>\<open>self.panel_id - 1\<close> as the id.\<close>

definition temperature_panel_template ::
  "generator \<Rightarrow> string \<Rightarrow> target list \<Rightarrow> grid_pos \<Rightarrow> panel \<times> generator" where
  "temperature_panel_template g ttl tgts gp =
     (let g' = g\<lparr>panel_id := panel_id g + 1\<rparr>
      in (\<lparr>id_panel = panel_id g' - 1, title = ttl, type_panel = ''bargauge'',
           datasource = Some ''prometheus-uid'', gridPos = gp, targets = tgts,
           field_unit = Some ''celsius''\<rparr>, g'))"

definition power_panel_template ::
  "generator \<Rightarrow> string \<Rightarrow> target list \<Rightarrow> grid_pos \<Rightarrow> panel \<times> generator" where
  "power_panel_template g ttl tgts gp =
     (let g' = g\<lparr>panel_id := panel_id g + 1\<rparr>
      in (\<lparr>id_panel = panel_id g' - 1, title = ttl, type_panel = ''bargauge'',
           datasource = Some ''prometheus-uid'', gridPos = gp, targets = tgts,
           field_unit = Some ''watt''\<rparr>, g'))"

definition disk_panel_template ::
  "generator \<Rightarrow> string \<Rightarrow> target list \<Rightarrow> grid_pos \<Rightarrow> panel \<times> generator" where
  "disk_panel_template g ttl tgts gp =
     (let g' = g\<lparr>panel_id := panel_id g + 1\<rparr>
      in (\<lparr>id_panel = panel_id g' - 1, title = ttl, type_panel = ''timeseries'',
           datasource = Some ''prometheus-uid'', gridPos = gp, targets = tgts,
           field_unit = Some ''Bps''\<rparr>, g'))"

definition network_panel_template ::
  "generator \<Rightarrow> string \<Rightarrow> target list \<Rightarrow> grid_pos \<Rightarrow> panel \<times> generator" where
  "network_panel_template g ttl tgts gp = disk_panel_template g ttl tgts gp"

definition process_panel_template ::
  "generator \<Rightarrow> string \<Rightarrow> target list \<Rightarrow> grid_pos \<Rightarrow> panel \<times> generator" where
  "process_panel_template g ttl tgts gp =
     (let g' = g\<lparr>panel_id := panel_id g + 1\<rparr>
      in (\<lparr>id_panel = panel_id g' - 1, title = ttl, type_panel = ''table'',
           datasource = Some ''prometheus-uid'', gridPos = gp, targets = tgts,
           field_unit = None\<rparr>, g'))"

subsection \<open>Dashboard assembler\<close>

text \<open>\<^verbatim>\<open>dashboard["panels"].append(p)\<close>\<close>

definition append_panel :: "panel \<Rightarrow> dashboard \<Rightarrow> dashboard" where
  "append_panel pn d = d\<lparr>panels := panels d @ [pn]\<rparr>"

fun add_row :: "string \<Rightarrow> generator \<times> dashboard \<Rightarrow> generator \<times> dashboard" where
  "add_row ttl (g, d) =
     (g\<lparr>panel_id := panel_id g + 1, current_y := current_y g + 1\<rparr>,
      append_panel
        \<lparr>id_panel = panel_id g, title = ttl, type_panel = ''row'', datasource = None,
         gridPos = \<lparr>gp_h = 1, gp_w = 24, gp_x = 0, gp_y = current_y g\<rparr>, targets = [],
         field_unit = None\<rparr> d)"

text \<open>\<^verbatim>\<open>_add_overview_panels\<close>, one function for each of its three blocks; the third
  component is the local \<^verbatim>\<open>x_pos\<close>.\<close>

definition panel_width :: int where
  "panel_width = 6"

fun overview_temperature :: "generator \<times> dashboard \<times> int \<Rightarrow> generator \<times> dashboard \<times> int" where
  "overview_temperature (g, d, x_pos) =
     (if has_temperature g then
        (let temp_targets = build_temperature_targets g
         in if temp_targets \<noteq> [] then
              (let (pn, g') = temperature_panel_template g (sym_thermometer @ '' Temperatures'')
                                temp_targets
                                \<lparr>gp_h = 5, gp_w = panel_width, gp_x = x_pos, gp_y = current_y g\<rparr>
               in (g', append_panel pn d, x_pos + panel_width))
            else (g, d, x_pos))
      else (g, d, x_pos))"

fun overview_power :: "generator \<times> dashboard \<times> int \<Rightarrow> generator \<times> dashboard \<times> int" where
  "overview_power (g, d, x_pos) =
     (if has_power g then
        (let power_targets = build_power_targets g
         in if power_targets \<noteq> [] then
              (let (pn, g') = power_panel_template g (sym_high_voltage @ '' Power Usage'')
                                power_targets
                                \<lparr>gp_h = 5, gp_w = panel_width, gp_x = x_pos, gp_y = current_y g\<rparr>
               in (g', append_panel pn d, x_pos + panel_width))
            else (g, d, x_pos))
      else (g, d, x_pos))"

fun overview_npu :: "generator \<times> dashboard \<times> int \<Rightarrow> generator \<times> dashboard \<times> int" where
  "overview_npu (g, d, x_pos) =
     (if has_npu g then
        (let npu_targets = [legend ''intel_npu_usage_percent'' ''Intel NPU'']
         in (g\<lparr>panel_id := panel_id g + 1\<rparr>,
             append_panel
               \<lparr>id_panel = panel_id g, title = sym_brain @ '' NPU Usage'', type_panel = ''bargauge'',
                datasource = Some ''prometheus-uid'',
                gridPos = \<lparr>gp_h = 5, gp_w = panel_width, gp_x = x_pos, gp_y = current_y g\<rparr>,
                targets = npu_targets, field_unit = Some ''percent''\<rparr> d,
             x_pos + panel_width))
      else (g, d, x_pos))"

fun add_overview_panels :: "generator \<times> dashboard \<Rightarrow> generator \<times> dashboard" where
  "add_overview_panels (g, d) =
     (let (g', d', x_pos) = overview_npu (overview_power (overview_temperature (g, d, 0)))
      in if x_pos > 0 then (g'\<lparr>current_y := current_y g' + 6\<rparr>, d') else (g', d'))"

fun add_gpu_panels :: "generator \<times> dashboard \<Rightarrow> generator \<times> dashboard" where
  "add_gpu_panels (g, d) =
     (let tgts = build_gpu_targets g
      in if tgts \<noteq> [] then
           (g\<lparr>current_y := current_y g + 11\<rparr>,
            append_panel (gpu_panel_template g ''GPU & Accelerator Utilization'' tgts
                            \<lparr>gp_h = 10, gp_w = 24, gp_x = 0, gp_y = current_y g\<rparr>) d)
         else (g, d))"

fun add_cpu_memory_panels :: "generator \<times> dashboard \<Rightarrow> generator \<times> dashboard" where
  "add_cpu_memory_panels (g, d) =
     (let cpu_targets = build_cpu_targets g;
          d1 = (if cpu_targets \<noteq> [] then
                  append_panel (cpu_panel_template g ''CPU Utilization'' cpu_targets
                                  \<lparr>gp_h = 10, gp_w = 12, gp_x = 0, gp_y = current_y g\<rparr>) d
                else d);
          mem_targets = build_memory_targets g;
          d2 = (if mem_targets \<noteq> [] then
                  append_panel (memory_panel_template g ''Memory Usage'' mem_targets
                                  \<lparr>gp_h = 10, gp_w = 12, gp_x = 12, gp_y = current_y g\<rparr>) d1
                else d1)
      in (g\<lparr>current_y := current_y g + 11\<rparr>, d2))"

fun add_disk_panels :: "prometheus \<Rightarrow> generator \<times> dashboard \<Rightarrow> generator \<times> dashboard" where
  "add_disk_panels prom (g, d) =
     (let io_targets = build_disk_io_targets prom g;
          (g1, d1) = (if io_targets \<noteq> [] then
                        (let (pn, g') = disk_panel_template g (sym_floppy @ '' Disk I/O'') io_targets
                                          \<lparr>gp_h = 10, gp_w = 12, gp_x = 0, gp_y = current_y g\<rparr>
                         in (g', append_panel pn d))
                      else (g, d));
          usage_targets = build_disk_usage_targets prom g1;
          (g2, d2) = (if usage_targets \<noteq> [] then
                        (g1\<lparr>panel_id := panel_id g1 + 1\<rparr>,
                         append_panel
                           \<lparr>id_panel = panel_id g1, title = sym_chart @ '' Disk Usage'',
                            type_panel = ''bargauge'', datasource = Some ''prometheus-uid'',
                            gridPos = \<lparr>gp_h = 10, gp_w = 12, gp_x = 12, gp_y = current_y g1\<rparr>,
                            targets = usage_targets, field_unit = Some ''percent''\<rparr> d1)
                      else (g1, d1))
      in (g2\<lparr>current_y := current_y g2 + 11\<rparr>, d2))"

fun add_network_panels :: "prometheus \<Rightarrow> generator \<times> dashboard \<Rightarrow> generator \<times> dashboard" where
  "add_network_panels prom (g, d) =
     (let net_targets = build_network_targets prom g
      in if net_targets \<noteq> [] then
           (let (pn, g') = network_panel_template g (sym_globe @ '' Network Traffic'') net_targets
                             \<lparr>gp_h = 10, gp_w = 24, gp_x = 0, gp_y = current_y g\<rparr>
            in (g'\<lparr>current_y := current_y g' + 11\<rparr>, append_panel pn d))
         else (g, d))"

fun add_process_panels :: "generator \<times> dashboard \<Rightarrow> generator \<times> dashboard" where
  "add_process_panels (g, d) =
     (let process_targets = build_process_targets
      in if process_targets \<noteq> [] then
           (let (pn, g') = process_panel_template g (sym_fire @ '' Top Processes'') process_targets
                             \<lparr>gp_h = 12, gp_w = 24, gp_x = 0, gp_y = current_y g\<rparr>
            in (g'\<lparr>current_y := current_y g' + 13\<rparr>, append_panel pn d))
         else (g, d))"

text \<open>The dashboard literal of \<^verbatim>\<open>_build_smart_dashboard\<close>, with the members that
  \<^verbatim>\<open>generate\<close> overwrites and the panel list.\<close>

definition empty_dashboard :: dashboard where
  "empty_dashboard =
     \<lparr>title_dashboard = sym_rocket @ '' SCRYPTED Telemetry (Auto-Generated)'', refresh = ''5s'',
      uid = ''scrypted-auto'', panels = []\<rparr>"

definition gpu_section :: "generator \<times> dashboard \<Rightarrow> generator \<times> dashboard" where
  "gpu_section s =
     (if has_any_gpu (fst s) then add_gpu_panels (add_row (sym_rocket @ '' GPU & Accelerators'') s)
      else s)"

definition disk_section :: "prometheus \<Rightarrow> generator \<times> dashboard \<Rightarrow> generator \<times> dashboard" where
  "disk_section prom s =
     (if has_disk_metrics (fst s) then add_disk_panels prom (add_row (sym_floppy @ '' Storage'') s)
      else s)"

definition network_section :: "prometheus \<Rightarrow> generator \<times> dashboard \<Rightarrow> generator \<times> dashboard" where
  "network_section prom s =
     (if has_network_metrics (fst s)
      then add_network_panels prom (add_row (sym_globe @ '' Network'') s)
      else s)"

definition process_section :: "generator \<times> dashboard \<Rightarrow> generator \<times> dashboard" where
  "process_section s =
     (if has_process_metrics (fst s) then add_process_panels (add_row (sym_chart @ '' Processes'') s)
      else s)"

definition build_smart_dashboard :: "prometheus \<Rightarrow> generator \<Rightarrow> generator \<times> dashboard" where
  "build_smart_dashboard prom g =
     process_section
       (network_section prom
          (disk_section prom
             (add_cpu_memory_panels
                (add_row (sym_laptop @ '' CPU & Memory'')
                   (gpu_section
                      (add_overview_panels
                         (add_row (sym_dart @ '' System Overview'') (g, empty_dashboard))))))))"

text \<open>\<^verbatim>\<open>discover_all\<close>: the four steps in order; the result is the generator's final
  state and the dashboard.\<close>

definition discover_all :: "prometheus \<Rightarrow> generator \<Rightarrow> generator \<times> dashboard" where
  "discover_all prom g =
     build_smart_dashboard prom (detect_hardware prom (identify_nodes prom (discover_metrics prom g)))"

subsection \<open>The end-to-end scenario of the specification\<close>

definition scenario_catalog :: "string list" where
  "scenario_catalog =
     [''node_cpu_seconds_total'', ''node_memory_MemAvailable_bytes'', ''node_memory_MemTotal_bytes'']"

text \<open>The discovery state with the one node \<^verbatim>\<open>10.0.0.5:9100\<close>, whose metric set is the
  whole catalog and whose flags are the ones \<^verbatim>\<open>_detect_hardware\<close> derives from it.\<close>

definition scenario_generator :: generator where
  "scenario_generator =
     init_generator
       \<lparr>nodes := [(''10.0.0.5:9100'',
                    \<lparr>hostname = ''10.0.0.5'', ip = ''10.0.0.5'', port = ''9100'',
                     metrics = scenario_catalog, hardware = hardware_flags scenario_catalog\<rparr>)],
        all_metrics := scenario_catalog\<rparr>"

text \<open>A server for the scenario: the catalog, the one instance, and one series for
  every query; sets iterate in insertion order.\<close>

definition scenario_prometheus :: prometheus where
  "scenario_prometheus =
     \<lparr>healthy = Response 200 (Json ()),
      label_names = Response 200 (Json (Some scenario_catalog)),
      label_instances = Response 200 (Json (Some [''10.0.0.5:9100''])),
      instant_query =
        (\<lambda>q. Response 200
               (Json (Envelope (Some ''success'') (Some [[(''instance'', ''10.0.0.5:9100'')]])))),
      set_rank = (\<lambda>xs s. 0)\<rparr>"

section \<open>Layout properties\<close>

text \<open>Two grid rectangles overlap when they share a cell: their horizontal extents
  \<open>[x, x + w)\<close> meet and their vertical extents \<open>[y, y + h)\<close> meet.\<close>

definition overlaps :: "grid_pos \<Rightarrow> grid_pos \<Rightarrow> bool" where
  "overlaps a b =
     (gp_x a < gp_x b + gp_w b \<and> gp_x b < gp_x a + gp_w a
      \<and> gp_y a < gp_y b + gp_h b \<and> gp_y b < gp_y a + gp_h a)"

text \<open>No two panels at different positions of the list overlap.\<close>

definition no_overlap :: "panel list \<Rightarrow> bool" where
  "no_overlap ps = sorted_wrt (\<lambda>a b. \<not> overlaps (gridPos a) (gridPos b)) ps"

text \<open>Every panel ends at or above the line \<open>c\<close>.\<close>

definition above_line :: "int \<Rightarrow> panel list \<Rightarrow> bool" where
  "above_line c ps = list_all (\<lambda>p. gp_y (gridPos p) + gp_h (gridPos p) \<le> c) ps"

text \<open>The titles of the row separators of a dashboard, in order: the sections that were
  included.\<close>

definition included_sections :: "dashboard \<Rightarrow> string list" where
  "included_sections d = map title (filter (\<lambda>p. type_panel p = ''row'') (panels d))"

text \<open>Whether \<^verbatim>\<open>_add_overview_panels\<close> appends a panel.\<close>

definition overview_has_panels :: "generator \<Rightarrow> bool" where
  "overview_has_panels g =
     ((has_temperature g \<and> build_temperature_targets g \<noteq> [])
      \<or> (has_power g \<and> build_power_targets g \<noteq> [])
      \<or> has_npu g)"

text \<open>
  What the assembler adds to \<^verbatim>\<open>current_y\<close>, read off the discovery state: 1 for each
  row separator; 6 when the overview holds a panel; 11 when the GPU panel is appended; 11
  for CPU and memory; 11 for storage; 11 when the network panel is appended; 13 for the
  process table.
\<close>

definition cursor_advance :: "prometheus \<Rightarrow> generator \<Rightarrow> int" where
  "cursor_advance prom g =
     1 + (if overview_has_panels g then 6 else 0)
     + (if has_any_gpu g then 1 + (if build_gpu_targets g \<noteq> [] then 11 else 0) else 0)
     + 1 + 11
     + (if has_disk_metrics g then 1 + 11 else 0)
     + (if has_network_metrics g
        then 1 + (if build_network_targets prom g \<noteq> [] then 11 else 0) else 0)
     + (if has_process_metrics g then 1 + 13 else 0)"

text \<open>
  The cursor advance read off an assembled panel list. What one panel contributes: a row
  separator 1, and on top of that 11 for the CPU and Memory row and for the Storage row and
  13 for the Processes row; the GPU panel 11; the network panel 11.
\<close>

definition panel_advance :: "panel \<Rightarrow> int" where
  "panel_advance p =
     (if type_panel p = ''row'' then
        1 + (if title p = sym_laptop @ '' CPU & Memory'' \<or> title p = sym_floppy @ '' Storage''
             then 11
             else if title p = sym_chart @ '' Processes'' then 13 else 0)
      else if title p = ''GPU & Accelerator Utilization'' \<or> title p = sym_globe @ '' Network Traffic''
      then 11
      else 0)"

text \<open>The three panels of the overview.\<close>

definition is_overview_panel :: "panel \<Rightarrow> bool" where
  "is_overview_panel p =
     (type_panel p = ''bargauge''
      \<and> title p \<in> set [sym_thermometer @ '' Temperatures'', sym_high_voltage @ '' Power Usage'',
                        sym_brain @ '' NPU Usage''])"

text \<open>The sum of the panels' contributions, and 6 when the list holds an overview
  panel.\<close>

definition cursor_of_panels :: "panel list \<Rightarrow> int" where
  "cursor_of_panels ps =
     sum_list (map panel_advance ps) + (if list_ex is_overview_panel ps then 6 else 0)"

text \<open>The cursor of state \<open>s\<close> is \<open>c0\<close> plus what the panel list of \<open>s\<close> accounts for.\<close>

definition tracks :: "int \<Rightarrow> generator \<times> dashboard \<Rightarrow> bool" where
  "tracks c0 s = (current_y (fst s) = c0 + cursor_of_panels (panels (snd s)))"

text \<open>Two discovery states with one node each: the first node exposes an NVIDIA metric
  that is not the utilisation gauge, the second exposes the utilisation gauge.\<close>

definition gpu_without_gauge :: generator where
  "gpu_without_gauge =
     init_generator
       \<lparr>nodes := [(''10.0.0.9:9400'',
                    \<lparr>hostname = ''10.0.0.9'', ip = ''10.0.0.9'', port = ''9400'',
                     metrics = [''nvidia_smi_index''],
                     hardware = hardware_flags [''nvidia_smi_index'']\<rparr>)],
        all_metrics := [''nvidia_smi_index'']\<rparr>"

definition gpu_with_gauge :: generator where
  "gpu_with_gauge =
     init_generator
       \<lparr>nodes := [(''10.0.0.9:9400'',
                    \<lparr>hostname = ''10.0.0.9'', ip = ''10.0.0.9'', port = ''9400'',
                     metrics = [''DCGM_FI_DEV_GPU_UTIL''],
                     hardware = hardware_flags [''DCGM_FI_DEV_GPU_UTIL'']\<rparr>)],
        all_metrics := [''DCGM_FI_DEV_GPU_UTIL'']\<rparr>"

text \<open>The layout invariant of the assembler between two sections: no two panels overlap
  and every panel ends at or above the cursor.\<close>

definition layout_ok :: "generator \<times> dashboard \<Rightarrow> bool" where
  "layout_ok s = (no_overlap (panels (snd s)) \<and> above_line (current_y (fst s)) (panels (snd s)))"

text \<open>The invariant inside \<^verbatim>\<open>_add_overview_panels\<close>, where the cursor stays at \<open>c\<close>: a
  panel either ends at or above \<open>c\<close>, or is an overview gauge on the line \<open>c\<close> to the left
  of \<^verbatim>\<open>x_pos\<close>.\<close>

definition overview_ok :: "int \<Rightarrow> generator \<times> dashboard \<times> int \<Rightarrow> bool" where
  "overview_ok c t =
     (case t of (g, d, x_pos) \<Rightarrow>
        current_y g = c \<and> 0 \<le> x_pos \<and> no_overlap (panels d)
        \<and> list_all (\<lambda>p. gp_y (gridPos p) + gp_h (gridPos p) \<le> c
                        \<or> (gp_y (gridPos p) = c \<and> gp_h (gridPos p) = 5 \<and> 0 \<le> gp_x (gridPos p)
                            \<and> 0 < gp_w (gridPos p)
                            \<and> gp_x (gridPos p) + gp_w (gridPos p) \<le> x_pos))
             (panels d))"

text \<open>The assembler's state \<open>s\<close> after some sections, started from generator \<open>g\<close>: the
  layout invariant holds, the discovery result is untouched and the cursor has advanced
  by \<open>c\<close>.\<close>

definition assembled :: "generator \<Rightarrow> int \<Rightarrow> generator \<times> dashboard \<Rightarrow> bool" where
  "assembled g c s =
     (layout_ok s \<and> nodes (fst s) = nodes g \<and> all_metrics (fst s) = all_metrics g
      \<and> current_y (fst s) = current_y g + c)"

text \<open>A server that cannot be reached: every request raises.\<close>

definition unreachable_prometheus :: prometheus where
  "unreachable_prometheus =
     \<lparr>healthy = Failure ''connection refused'', label_names = Failure ''connection refused'',
      label_instances = Failure ''connection refused'',
      instant_query = (\<lambda>q. Failure ''connection refused''), set_rank = (\<lambda>xs s. 0)\<rparr>"

section \<open>HTTP facade (plugin_api.py)\<close>

text \<open>
  What a handler returns: the HTTP status code and, of the JSON body, the members
  \<^verbatim>\<open>status\<close> and \<^verbatim>\<open>error\<close>. The other members (traceback, the echoed upstream
  response, the dashboard link) are not modelled.
\<close>

record facade_response =
  http_code :: int
  status :: string
  error :: "string option"

subsection \<open>\<^verbatim>\<open>generate\<close>\<close>

text \<open>The request body of \<^verbatim>\<open>/generate\<close>: each member is absent (\<open>None\<close>, the handler
  then takes its default) or present.\<close>

record generate_request =
  dashboard_name :: "string option"
  req_include_gpu :: "bool option"
  req_include_processes :: "bool option"
  req_include_disk :: "bool option"
  req_include_network :: "bool option"
  req_refresh_interval :: "string option"
  req_uid :: "string option"
  req_datasource_uid :: "string option"

text \<open>The \<^verbatim>\<open>options\<close> dict.\<close>

record options =
  name :: string
  include_gpu :: bool
  include_processes :: bool
  include_disk :: bool
  include_network :: bool
  refresh_interval :: string
  uid_option :: string
  datasource_uid :: string

text \<open>\<^verbatim>\<open>data.get(key, default)\<close>\<close>

definition get_or :: "'a option \<Rightarrow> 'a \<Rightarrow> 'a" where
  "get_or v dflt = (case v of None \<Rightarrow> dflt | Some a \<Rightarrow> a)"

definition options_of :: "generate_request \<Rightarrow> options" where
  "options_of data =
     \<lparr>name = get_or (dashboard_name data) ''Scrypted Telemetry'',
      include_gpu = get_or (req_include_gpu data) True,
      include_processes = get_or (req_include_processes data) True,
      include_disk = get_or (req_include_disk data) True,
      include_network = get_or (req_include_network data) True,
      refresh_interval = get_or (req_refresh_interval data) ''5s'',
      uid_option = get_or (req_uid data) ''scrypted-auto'',
      datasource_uid = get_or (req_datasource_uid data) ''prometheus-uid''\<rparr>"

text \<open>\<^verbatim>\<open>if "datasource" in panel: panel["datasource"]["uid"] = ...\<close>\<close>

definition set_datasource_uid :: "string \<Rightarrow> panel \<Rightarrow> panel" where
  "set_datasource_uid u p = (case datasource p of None \<Rightarrow> p | Some old \<Rightarrow> p\<lparr>datasource := Some u\<rparr>)"

text \<open>The four conditional list comprehensions of \<^verbatim>\<open>generate\<close>, in order.\<close>

definition filter_panels :: "options \<Rightarrow> panel list \<Rightarrow> panel list" where
  "filter_panels opts ps =
     (let ps1 = (if \<not> include_gpu opts
                 then filter (\<lambda>p. \<not> str_in ''GPU'' (title p) \<and> \<not> str_in ''Accelerator'' (title p)) ps
                 else ps);
          ps2 = (if \<not> include_processes opts
                 then filter (\<lambda>p. \<not> str_in ''Process'' (title p)) ps1
                 else ps1);
          ps3 = (if \<not> include_disk opts
                 then filter (\<lambda>p. \<not> str_in ''Disk'' (title p) \<and> \<not> str_in ''Storage'' (title p)) ps2
                 else ps2);
          ps4 = (if \<not> include_network opts
                 then filter (\<lambda>p. \<not> str_in ''Network'' (title p)) ps3
                 else ps3)
      in ps4)"

record generate_response =
  gen_status :: string
  gen_dashboard :: dashboard
  panel_count :: nat

definition generate :: "prometheus \<Rightarrow> generate_request \<Rightarrow> generate_response" where
  "generate prom data =
     (let opts = options_of data;
          d0 = snd (discover_all prom init_generator);
          d1 = d0\<lparr>title_dashboard := name opts, refresh := refresh_interval opts,
                  uid := uid_option opts\<rparr>;
          d2 = d1\<lparr>panels := map (set_datasource_uid (datasource_uid opts)) (panels d1)\<rparr>;
          d3 = d2\<lparr>panels := filter_panels opts (panels d2)\<rparr>
      in \<lparr>gen_status = ''success'', gen_dashboard = d3, panel_count = length (panels d3)\<rparr>)"

subsection \<open>\<^verbatim>\<open>import_to_grafana\<close>\<close>

text \<open>A JSON value, for the dashboard document a client sends.\<close>

datatype json =
  JNull | JBool bool | JNum int | JStr string | JArr "json list" | JObj "(string \<times> json) list"

text \<open>Python truthiness of a decoded JSON value.\<close>

fun json_truthy :: "json \<Rightarrow> bool" where
  "json_truthy JNull = False"
| "json_truthy (JBool b) = b"
| "json_truthy (JNum n) = (n \<noteq> 0)"
| "json_truthy (JStr s) = (s \<noteq> [])"
| "json_truthy (JArr xs) = (xs \<noteq> [])"
| "json_truthy (JObj kvs) = (kvs \<noteq> [])"

text \<open>The name of the Python type of a decoded JSON value, as an \<^verbatim>\<open>AttributeError\<close>
  prints it.\<close>

fun type_name :: "json \<Rightarrow> string" where
  "type_name JNull = ''NoneType''"
| "type_name (JBool b) = ''bool''"
| "type_name (JNum n) = ''int''"
| "type_name (JStr s) = ''str''"
| "type_name (JArr xs) = ''list''"
| "type_name (JObj kvs) = ''dict''"

text \<open>The member \<^verbatim>\<open>grafana_url\<close> of a request body: absent, null, or a string.\<close>

datatype url_member = UrlAbsent | UrlNull | Url string

text \<open>\<^verbatim>\<open>data.get('grafana_url', 'http://localhost:3000')\<close> as the f-string of the URL
  prints it: the default applies to an absent member only, and a null member is the value
  \<^verbatim>\<open>None\<close>, printed \<^verbatim>\<open>None\<close>.\<close>

definition grafana_url_text :: "url_member \<Rightarrow> string" where
  "grafana_url_text m =
     (case m of UrlAbsent \<Rightarrow> ''http://localhost:3000'' | UrlNull \<Rightarrow> ''None'' | Url u \<Rightarrow> u)"

text \<open>The request body of \<^verbatim>\<open>/import\<close>. For \<^verbatim>\<open>api_key\<close> and \<^verbatim>\<open>dashboard\<close>, \<open>None\<close> is what
  \<^verbatim>\<open>data.get\<close> gives for an absent or null member (both are falsy); the key is a JSON
  string when present.\<close>

record import_request =
  req_grafana_url :: url_member
  api_key :: "string option"
  req_dashboard :: "json option"

text \<open>One call of \<^verbatim>\<open>requests.post\<close> for \<^verbatim>\<open>/api/dashboards/db\<close>: the URL, the two
  headers and, of the JSON body, the dashboard and the \<^verbatim>\<open>overwrite\<close> flag (the message
  carries the wall-clock time).\<close>

record grafana_post =
  post_url :: string
  authorization :: string
  content_type :: string
  post_dashboard :: json
  overwrite :: bool

text \<open>Grafana as the program meets it: the outcome of the health request and the outcome
  of a \<^verbatim>\<open>requests.post\<close> call, which depends on the call (a URL that \<^verbatim>\<open>requests\<close>
  cannot use, such as \<^verbatim>\<open>None/api/dashboards/db\<close>, makes the call raise).\<close>

record grafana =
  health :: "unit reply"
  dashboards_db :: "grafana_post \<Rightarrow> json reply"

definition client_error :: "string \<Rightarrow> facade_response" where
  "client_error msg = \<lparr>http_code = 400, status = ''error'', error = Some msg\<rparr>"

definition server_error :: "string \<Rightarrow> facade_response" where
  "server_error msg = \<lparr>http_code = 500, status = ''error'', error = Some msg\<rparr>"

text \<open>
  \<^verbatim>\<open>import_to_grafana\<close>. The result is the response and the list of the
  \<^verbatim>\<open>requests.post\<close> calls made. \<^verbatim>\<open>if not api_key\<close> and \<^verbatim>\<open>if not dashboard\<close> test truthiness; an exception
  raised after the checks (by \<^verbatim>\<open>requests.post\<close>, by \<^verbatim>\<open>response.json()\<close> or by
  \<^verbatim>\<open>dashboard.get\<close> on a value that is not a dict) reaches the handler's \<^verbatim>\<open>except\<close>.
\<close>

definition import_to_grafana :: "grafana \<Rightarrow> import_request \<Rightarrow> facade_response \<times> grafana_post list" where
  "import_to_grafana graf data =
     (let grafana_url = grafana_url_text (req_grafana_url data)
      in case api_key data of
           None \<Rightarrow> (client_error ''API key required for import'', [])
         | Some k \<Rightarrow>
             if k = [] then (client_error ''API key required for import'', [])
             else
               (case req_dashboard data of
                  None \<Rightarrow> (client_error ''Dashboard JSON required'', [])
                | Some dashboard \<Rightarrow>
                    if \<not> json_truthy dashboard then (client_error ''Dashboard JSON required'', [])
                    else
                      (let post = \<lparr>post_url = grafana_url @ ''/api/dashboards/db'',
                                   authorization = ''Bearer '' @ k,
                                   content_type = ''application/json'',
                                   post_dashboard = dashboard, overwrite = True\<rparr>
                       in case dashboards_db graf post of
                            Failure e \<Rightarrow> (server_error e, [post])
                          | Response status_code body \<Rightarrow>
                              if status_code = 200 then
                                (case body of
                                   Invalid e \<Rightarrow> (server_error e, [post])
                                 | Json result \<Rightarrow>
                                     (case dashboard of
                                        JObj kvs \<Rightarrow>
                                          (\<lparr>http_code = 200, status = ''success'', error = None\<rparr>,
                                           [post])
                                      | other \<Rightarrow>
                                          (server_error
                                             ([CHR 0x27] @ type_name other
                                                @ [CHR 0x27] @ '' object has no attribute ''
                                                @ [CHR 0x27] @ ''get'' @ [CHR 0x27]),
                                           [post])))
                              else (server_error (''Grafana returned '' @ str_int status_code),
                                    [post]))))"

subsection \<open>\<^verbatim>\<open>validate_setup\<close>\<close>

record health_check =
  check_status :: string
  issues :: "string list"

record validation =
  prometheus_check :: health_check
  grafana_check :: health_check
  found :: "string list"
  missing :: "string list"
  recommendations :: "string list"

record validation_result = validation +
  ready :: bool
  message :: string

definition prometheus_hint :: string where
  "prometheus_hint = ''Install and start Prometheus: docker run -p 9090:9090 prom/prometheus''"

definition grafana_hint :: string where
  "grafana_hint = ''Install and start Grafana: docker run -p 3000:3000 grafana/grafana''"

text \<open>One \<^verbatim>\<open>try\<close>/\<^verbatim>\<open>except\<close> health check: the new check entry and the recommendations
  it appends.\<close>

definition run_health_check :: "unit reply \<Rightarrow> string \<Rightarrow> health_check \<Rightarrow> health_check \<times> string list" where
  "run_health_check r hint c =
     (case r of
        Failure e \<Rightarrow> (\<lparr>check_status = ''unreachable'', issues = issues c @ [e]\<rparr>, [hint])
      | Response status_code body \<Rightarrow>
          if status_code = 200 then (c\<lparr>check_status := ''healthy''\<rparr>, [])
          else (\<lparr>check_status = ''unhealthy'',
                 issues = issues c @ [''Health check returned '' @ str_int status_code]\<rparr>, []))"

text \<open>The exporter checks on the metric names.\<close>

definition check_exporters :: "string list \<Rightarrow> validation \<Rightarrow> validation" where
  "check_exporters ms v =
     (let v1 = (if list_ex (\<lambda>m. startswith m ''node_'') ms
                then v\<lparr>found := found v @ [''node-exporter'']\<rparr>
                else v\<lparr>missing := missing v @ [''node-exporter''],
                       recommendations := recommendations v
                         @ [''Install node-exporter for system metrics'']\<rparr>);
          v2 = (if list_ex (\<lambda>m. startswith_any m [''nvidia_'', ''DCGM_'']) ms
                then v1\<lparr>found := found v1 @ [''nvidia-exporter'']\<rparr> else v1);
          v3 = (if list_ex (\<lambda>m. startswith m ''intel_npu_'') ms
                then v2\<lparr>found := found v2 @ [''intel-npu-exporter'']\<rparr> else v2);
          v4 = (if list_ex (\<lambda>m. startswith m ''mac_'') ms
                then v3\<lparr>found := found v3 @ [''mac-exporter'']\<rparr> else v3)
      in if found v4 = []
         then v4\<lparr>recommendations := recommendations v4
                   @ [''No exporters found - run the setup script to install them'']\<rparr>
         else v4)"

definition add_prometheus_issue :: "string \<Rightarrow> validation \<Rightarrow> validation" where
  "add_prometheus_issue msg v =
     v\<lparr>prometheus_check :=
         (prometheus_check v)\<lparr>issues := issues (prometheus_check v) @ [msg]\<rparr>\<rparr>"

definition validate_setup :: "prometheus \<Rightarrow> grafana \<Rightarrow> validation_result" where
  "validate_setup prom graf =
     (let v0 = \<lparr>prometheus_check = \<lparr>check_status = ''unknown'', issues = []\<rparr>,
                grafana_check = \<lparr>check_status = ''unknown'', issues = []\<rparr>,
                found = [], missing = [], recommendations = []\<rparr>;
          (pc, precs) = run_health_check (healthy prom) prometheus_hint (prometheus_check v0);
          v1 = v0\<lparr>prometheus_check := pc, recommendations := recommendations v0 @ precs\<rparr>;
          (gc, grecs) = run_health_check (health graf) grafana_hint (grafana_check v1);
          v2 = v1\<lparr>grafana_check := gc, recommendations := recommendations v1 @ grecs\<rparr>;
          v3 = (if check_status (prometheus_check v2) = ''healthy'' then
                  (case label_names prom of
                     Failure e \<Rightarrow> add_prometheus_issue (''Could not query metrics: '' @ e) v2
                   | Response status_code body \<Rightarrow>
                       if status_code = 200 then
                         (case body of
                            Invalid e \<Rightarrow> add_prometheus_issue (''Could not query metrics: '' @ e) v2
                          | Json d \<Rightarrow> check_exporters (remdups (get_or d [])) v2)
                       else v2)
                else v2);
          is_ready = (check_status (prometheus_check v3) = ''healthy''
                      \<and> check_status (grafana_check v3) = ''healthy''
                      \<and> length (found v3) > 0)
      in validation.extend v3
           \<lparr>ready = is_ready,
            message = (if is_ready then ''System is ready for dashboard generation''
                       else ''Setup incomplete - check recommendations'')\<rparr>)"

text \<open>Sample inputs of the facade.\<close>

definition no_gpu_options :: options where
  "no_gpu_options =
     \<lparr>name = ''Scrypted Telemetry'', include_gpu = False, include_processes = True,
      include_disk = True, include_network = True, refresh_interval = ''5s'',
      uid_option = ''scrypted-auto'', datasource_uid = ''prometheus-uid''\<rparr>"

definition accepting_grafana :: grafana where
  "accepting_grafana =
     \<lparr>health = Response 200 (Json ()),
      dashboards_db = (\<lambda>post. Response 200 (Json (JObj [(''status'', JStr ''success'')])))\<rparr>"

definition unreachable_grafana :: grafana where
  "unreachable_grafana =
     \<lparr>health = Failure ''connection refused'',
      dashboards_db = (\<lambda>post. Failure ''connection refused'')\<rparr>"

definition healthy_prometheus :: prometheus where
  "healthy_prometheus =
     \<lparr>healthy = Response 200 (Json ()),
      label_names = Response 200 (Json (Some [''node_cpu_seconds_total''])),
      label_instances = Response 200 (Json (Some [''10.0.0.5:9100'', ''localhost''])),
      instant_query =
        (\<lambda>q. Response 200 (Json (Envelope (Some ''success'') (Some [[(''job'', ''node'')]])))),
      set_rank = (\<lambda>xs s. 0)\<rparr>"

definition empty_key_request :: import_request where
  "empty_key_request =
     \<lparr>req_grafana_url = UrlAbsent, api_key = Some [],
      req_dashboard = Some (JObj [(''uid'', JStr ''scrypted-auto'')])\<rparr>"

definition good_import_request :: import_request where
  "good_import_request =
     \<lparr>req_grafana_url = UrlAbsent, api_key = Some ''secret'',
      req_dashboard = Some (JObj [(''uid'', JStr ''scrypted-auto'')])\<rparr>"

definition null_url_import_request :: import_request where
  "null_url_import_request =
     \<lparr>req_grafana_url = UrlNull, api_key = Some ''secret'',
      req_dashboard = Some (JObj [(''uid'', JStr ''scrypted-auto'')])\<rparr>"

text \<open>A server with one GPU node, and a request that switches the GPU panels off.\<close>

definition gpu_prometheus :: prometheus where
  "gpu_prometheus =
     \<lparr>healthy = Response 200 (Json ()),
      label_names = Response 200 (Json (Some [''DCGM_FI_DEV_GPU_UTIL''])),
      label_instances = Response 200 (Json (Some [''10.0.0.9:9400''])),
      instant_query =
        (\<lambda>q. Response 200
               (Json (Envelope (Some ''success'') (Some [[(''instance'', ''10.0.0.9:9400'')]])))),
      set_rank = (\<lambda>xs s. 0)\<rparr>"

definition no_gpu_request :: generate_request where
  "no_gpu_request =
     \<lparr>dashboard_name = None, req_include_gpu = Some False, req_include_processes = None,
      req_include_disk = None, req_include_network = None, req_refresh_interval = None,
      req_uid = None, req_datasource_uid = None\<rparr>"

text \<open>A Grafana whose import call raises unless the URL starts with \<^verbatim>\<open>http\<close>.\<close>

definition scheme_checking_grafana :: grafana where
  "scheme_checking_grafana =
     \<lparr>health = Response 200 (Json ()),
      dashboards_db =
        (\<lambda>post. if startswith (post_url post) ''http''
                then Response 200 (Json (JObj [(''status'', JStr ''success'')]))
                else Failure ''Invalid URL: No scheme supplied'')\<rparr>"

text \<open>The panel list of state \<open>s\<close>, assembled from generator \<open>g\<close>, has contributions that
  sum to \<open>a\<close> and holds an overview panel exactly when \<open>b\<close>.\<close>

definition accounted :: "generator \<Rightarrow> int \<Rightarrow> bool \<Rightarrow> generator \<times> dashboard \<Rightarrow> bool" where
  "accounted g a b s =
     (nodes (fst s) = nodes g \<and> all_metrics (fst s) = all_metrics g
      \<and> sum_list (map panel_advance (panels (snd s))) = a
      \<and> (list_ex is_overview_panel (panels (snd s)) \<longleftrightarrow> b))"

section \<open>Facts about the string predicates\<close>

lemma startswith_prefix: "startswith s p \<longleftrightarrow> prefix p s"
  by (induction s p rule: startswith.induct) auto

lemma str_in_sublist: "str_in p s \<longleftrightarrow> sublist p s"
proof (induction s)
  case Nil
  show ?case by simp
next
  case (Cons c s)
  then show ?case by (simp add: startswith_prefix sublist_Cons_right)
qed

lemma startswith_any_prefix: "startswith_any s ps \<longleftrightarrow> (\<exists>p\<in>set ps. prefix p s)"
  by (simp add: startswith_any_def list_ex_iff startswith_prefix)

section \<open>Hardware flags\<close>

lemma hardware_flags_cong:
  assumes "set ms' = set ms"
  shows "hardware_flags ms' = hardware_flags ms"
  using assms by (simp add: hardware_flags_def list_ex_iff)

text \<open>
  Claim C3. The hardware flags derived from an instance's metric names follow the
  predicate table: \<^verbatim>\<open>nvidia_gpu\<close> holds iff some name starts with \<^verbatim>\<open>nvidia_\<close> or
  \<^verbatim>\<open>DCGM_\<close>; \<^verbatim>\<open>intel_npu\<close> iff \<^verbatim>\<open>intel_npu_usage_percent\<close> is among the names;
  \<^verbatim>\<open>mac\<close> iff some name starts with \<^verbatim>\<open>mac_\<close>; \<^verbatim>\<open>has_temp\<close> iff some name contains
  \<^verbatim>\<open>temp\<close>; \<^verbatim>\<open>has_power\<close> iff some name contains \<^verbatim>\<open>power\<close> or \<^verbatim>\<open>watts\<close>. The flags
  depend on the set of names only: any other enumeration of the same set gives the same
  flags. Hardware detection stores for each node the flags of the metric names it found
  for that node.
\<close>

theorem hardware_flags_table:
  "map_of (hardware_flags ms) ''nvidia_gpu''
     = Some (\<exists>m\<in>set ms. prefix ''nvidia_'' m \<or> prefix ''DCGM_'' m)
   \<and> map_of (hardware_flags ms) ''intel_npu'' = Some (''intel_npu_usage_percent'' \<in> set ms)
   \<and> map_of (hardware_flags ms) ''mac'' = Some (\<exists>m\<in>set ms. prefix ''mac_'' m)
   \<and> map_of (hardware_flags ms) ''has_temp'' = Some (\<exists>m\<in>set ms. sublist ''temp'' m)
   \<and> map_of (hardware_flags ms) ''has_power''
     = Some (\<exists>m\<in>set ms. sublist ''power'' m \<or> sublist ''watts'' m)
   \<and> (\<forall>ms'. set ms' = set ms \<longrightarrow> hardware_flags ms' = hardware_flags ms)
   \<and> hardware (detect_node prom catalog instance node)
     = hardware_flags (metrics (detect_node prom catalog instance node))"
proof -
  have nvidia: "map_of (hardware_flags ms) ''nvidia_gpu''
     = Some (\<exists>m\<in>set ms. prefix ''nvidia_'' m \<or> prefix ''DCGM_'' m)"
    by (simp add: hardware_flags_def list_ex_iff startswith_any_prefix)
  have npu: "map_of (hardware_flags ms) ''intel_npu''
     = Some (''intel_npu_usage_percent'' \<in> set ms)"
    by (simp add: hardware_flags_def)
  have mac: "map_of (hardware_flags ms) ''mac'' = Some (\<exists>m\<in>set ms. prefix ''mac_'' m)"
    by (simp add: hardware_flags_def list_ex_iff startswith_prefix)
  have temp: "map_of (hardware_flags ms) ''has_temp'' = Some (\<exists>m\<in>set ms. sublist ''temp'' m)"
    by (simp add: hardware_flags_def list_ex_iff str_in_sublist)
  have power: "map_of (hardware_flags ms) ''has_power''
     = Some (\<exists>m\<in>set ms. sublist ''power'' m \<or> sublist ''watts'' m)"
    by (simp add: hardware_flags_def list_ex_iff str_in_sublist)
  have pure: "\<forall>ms'. set ms' = set ms \<longrightarrow> hardware_flags ms' = hardware_flags ms"
    using hardware_flags_cong by (intro allI impI)
  have detected: "hardware (detect_node prom catalog instance node)
     = hardware_flags (metrics (detect_node prom catalog instance node))"
    unfolding detect_node_def Let_def by simp
  show ?thesis
    by (intro conjI)
      (rule nvidia, rule npu, rule mac, rule temp, rule power, rule pure, rule detected)
qed

theorem hardware_flags_table_witness:
  "set [''intel_npu_usage_percent'', ''nvidia_smi_temp''] = set [''nvidia_smi_temp'', ''intel_npu_usage_percent'']
   \<and> hardware_flags [''intel_npu_usage_percent'', ''nvidia_smi_temp'']
     = hardware_flags [''nvidia_smi_temp'', ''intel_npu_usage_percent'']
   \<and> map_of (hardware_flags [''nvidia_smi_temp'', ''intel_npu_usage_percent'']) ''nvidia_gpu''
     = Some True
   \<and> map_of (hardware_flags [''nvidia_smi_temp'', ''intel_npu_usage_percent'']) ''mac''
     = Some False"
proof -
  have s: "set [''intel_npu_usage_percent'', ''nvidia_smi_temp'']
      = set [''nvidia_smi_temp'', ''intel_npu_usage_percent'']"
    by (simp add: insert_commute)
  have t: "\<forall>ms'. set ms' = set [''nvidia_smi_temp'', ''intel_npu_usage_percent'']
      \<longrightarrow> hardware_flags ms' = hardware_flags [''nvidia_smi_temp'', ''intel_npu_usage_percent'']"
    by (rule hardware_flags_table
          [of "[''nvidia_smi_temp'', ''intel_npu_usage_percent'']",
           THEN conjunct2, THEN conjunct2, THEN conjunct2, THEN conjunct2, THEN conjunct2,
           THEN conjunct1])
  have e: "hardware_flags [''intel_npu_usage_percent'', ''nvidia_smi_temp'']
     = hardware_flags [''nvidia_smi_temp'', ''intel_npu_usage_percent'']"
    using t s by (elim allE impE)
  have n: "map_of (hardware_flags [''nvidia_smi_temp'', ''intel_npu_usage_percent'']) ''nvidia_gpu''
     = Some True"
    by (simp add: hardware_flags_def startswith_any_def)
  have m: "map_of (hardware_flags [''nvidia_smi_temp'', ''intel_npu_usage_percent'']) ''mac''
     = Some False"
    by (simp add: hardware_flags_def)
  show ?thesis
    by (intro conjI) (rule s, rule e, rule n, rule m)
qed

section \<open>Metric catalog client\<close>

text \<open>
  Claim C4. Whatever the query expression, when the request to the instant-query endpoint
  raises, when decoding the response raises, when the status code is not 200, or when the
  envelope's status is not \<^verbatim>\<open>success\<close>, the query operation returns \<^verbatim>\<open>None\<close>: a result
  without samples, falsy for every caller, and no exception (the function's value is always a
  result). In the first three cases at the name endpoint, metric discovery on a new generator
  leaves the catalog empty.
\<close>

theorem query_metric_failure_is_empty:
  "(instant_query prom q = Failure e \<longrightarrow> query_metric prom q = None)
   \<and> (instant_query prom q = Response code (Invalid e) \<longrightarrow> query_metric prom q = None)
   \<and> (instant_query prom q = Response code body \<and> code \<noteq> 200 \<longrightarrow> query_metric prom q = None)
   \<and> (instant_query prom q = Response code (Json (Envelope st res)) \<and> st \<noteq> Some ''success''
        \<longrightarrow> query_metric prom q = None)
   \<and> (query_metric prom q = None \<longrightarrow> \<not> truthy (query_metric prom q))
   \<and> (label_names prom = Failure e \<or> label_names prom = Response code (Invalid e)
        \<or> (label_names prom = Response code names \<and> code \<noteq> 200)
        \<longrightarrow> all_metrics (discover_metrics prom init_generator) = [])"
  by (auto simp: query_metric_def truthy_def discover_metrics_def init_generator_def)

theorem query_metric_failure_is_empty_witness:
  "instant_query \<lparr>healthy = Failure ''refused'', label_names = Failure ''refused'',
       label_instances = Failure ''refused'', instant_query = (\<lambda>q. Failure ''refused''),
       set_rank = (\<lambda>xs s. 0)\<rparr> ''up''
     = Failure ''refused''
   \<and> query_metric \<lparr>healthy = Failure ''refused'', label_names = Failure ''refused'',
       label_instances = Failure ''refused'', instant_query = (\<lambda>q. Failure ''refused''),
       set_rank = (\<lambda>xs s. 0)\<rparr> ''up''
     = None
   \<and> all_metrics (discover_metrics \<lparr>healthy = Failure ''refused'', label_names = Failure ''refused'',
       label_instances = Failure ''refused'', instant_query = (\<lambda>q. Failure ''refused''),
       set_rank = (\<lambda>xs s. 0)\<rparr>
         init_generator) = []"
  using query_metric_failure_is_empty
    [of "\<lparr>healthy = Failure ''refused'', label_names = Failure ''refused'',
          label_instances = Failure ''refused'', instant_query = (\<lambda>q. Failure ''refused''),
       set_rank = (\<lambda>xs s. 0)\<rparr>"
        "''up''" "''refused''" 500 "Invalid ''refused''" None None "Invalid ''refused''"]
  by simp

section \<open>Target builders\<close>

lemma for_nodes_concat:
  "for_nodes body ns acc = acc @ concat (map (\<lambda>(instance, node). body instance node) ns)"
  by (induction ns arbitrary: acc) auto

text \<open>
  Claim C5. The CPU target builder visits the nodes in order and appends for each node at
  most one target, chosen by priority: with \<^verbatim>\<open>cpu_usage_idle\<close> among the node's metrics,
  100 minus the idle gauge; else with \<^verbatim>\<open>node_cpu_seconds_total\<close>, the rate-based
  expression; else for a mac node with \<^verbatim>\<open>mac_pcpu_usage_percent\<close>, the average of the
  performance-core and efficiency-core gauges; else nothing.
\<close>

theorem build_cpu_targets_priority:
  \<open>build_cpu_targets g = concat (map (\<lambda>(instance, node). cpu_targets_of instance node) (nodes g))
   \<and> length (cpu_targets_of i n) \<le> 1
   \<and> (''cpu_usage_idle'' \<in> set (metrics n) \<longrightarrow>
        cpu_targets_of i n =
          [\<lparr>expr = ''100 - cpu_usage_idle{cpu="cpu-total",instance="'' @ i @ ''"}'',
            legendFormat = Some (hostname n @ '' CPU''), format = None\<rparr>])
   \<and> (''cpu_usage_idle'' \<notin> set (metrics n) \<and> ''node_cpu_seconds_total'' \<in> set (metrics n) \<longrightarrow>
        cpu_targets_of i n =
          [\<lparr>expr = ''100 - (avg by(instance) (rate(node_cpu_seconds_total{mode="idle",instance="''
                     @ i @ ''"}[5m])) * 100)'',
            legendFormat = Some (hostname n @ '' CPU''), format = None\<rparr>])
   \<and> (''cpu_usage_idle'' \<notin> set (metrics n) \<and> ''node_cpu_seconds_total'' \<notin> set (metrics n)
        \<and> hardware_get n ''mac'' \<and> ''mac_pcpu_usage_percent'' \<in> set (metrics n) \<longrightarrow>
        cpu_targets_of i n =
          [\<lparr>expr = ''(mac_pcpu_usage_percent{instance="'' @ i
                     @ ''"} + mac_ecpu_usage_percent{instance="'' @ i @ ''"}) / 2'',
            legendFormat = Some (hostname n @ '' Mac CPU''), format = None\<rparr>])
   \<and> (''cpu_usage_idle'' \<notin> set (metrics n) \<and> ''node_cpu_seconds_total'' \<notin> set (metrics n)
        \<and> \<not> (hardware_get n ''mac'' \<and> ''mac_pcpu_usage_percent'' \<in> set (metrics n)) \<longrightarrow>
        cpu_targets_of i n = [])\<close>
proof -
  have loop: "build_cpu_targets g
      = concat (map (\<lambda>(instance, node). cpu_targets_of instance node) (nodes g))"
    by (simp add: build_cpu_targets_def for_nodes_concat)
  have rest: "length (cpu_targets_of i n) \<le> 1" 
    by (simp add: cpu_targets_of_def)
  show ?thesis
    apply (intro conjI)
         apply (rule loop)
        apply (rule rest)
       apply (simp_all add: cpu_targets_of_def legend_def)
    done
qed

theorem build_cpu_targets_priority_witness:
  \<open>''cpu_usage_idle'' \<in> set (metrics \<lparr>hostname = ''nas'', ip = ''10.0.0.7'', port = ''9273'',
        metrics = [''node_cpu_seconds_total'', ''cpu_usage_idle''], hardware = []\<rparr>)
   \<and> cpu_targets_of ''10.0.0.7:9273'' \<lparr>hostname = ''nas'', ip = ''10.0.0.7'', port = ''9273'',
        metrics = [''node_cpu_seconds_total'', ''cpu_usage_idle''], hardware = []\<rparr>
     = [\<lparr>expr = ''100 - cpu_usage_idle{cpu="cpu-total",instance="10.0.0.7:9273"}'',
         legendFormat = Some ''nas CPU'', format = None\<rparr>]\<close>
  using build_cpu_targets_priority
    [of init_generator "''10.0.0.7:9273''"
        "\<lparr>hostname = ''nas'', ip = ''10.0.0.7'', port = ''9273'',
          metrics = [''node_cpu_seconds_total'', ''cpu_usage_idle''], hardware = []\<rparr>"]
  by simp

section \<open>The end-to-end scenario\<close>

text \<open>The scenario's discovery state is the one discovery reaches on a server that
  serves the three metrics for the single instance.\<close>

lemma scenario_reached_by_discovery:
  "detect_hardware scenario_prometheus
     (identify_nodes scenario_prometheus (discover_metrics scenario_prometheus init_generator))
   = scenario_generator"
  by code_simp

text \<open>
  Claim C6. In the discovery state whose catalog is \<^verbatim>\<open>node_cpu_seconds_total\<close>,
  \<^verbatim>\<open>node_memory_MemAvailable_bytes\<close>, \<^verbatim>\<open>node_memory_MemTotal_bytes\<close>, with the single node
  \<^verbatim>\<open>10.0.0.5:9100\<close> carrying exactly these metrics, assembly yields four panels in this
  order: the Overview row separator (no overview content), the CPU and Memory row separator,
  the CPU panel with the rate-based formula and the memory panel with the percent-used
  formula; there is no GPU, storage, network or process row or panel.
\<close>

theorem scenario_dashboard:
  \<open>panels (snd (build_smart_dashboard prom scenario_generator)) =
     [\<lparr>id_panel = 1, title = sym_dart @ '' System Overview'', type_panel = ''row'',
       datasource = None, gridPos = \<lparr>gp_h = 1, gp_w = 24, gp_x = 0, gp_y = 0\<rparr>, targets = [],
       field_unit = None\<rparr>,
      \<lparr>id_panel = 2, title = sym_laptop @ '' CPU & Memory'', type_panel = ''row'',
       datasource = None, gridPos = \<lparr>gp_h = 1, gp_w = 24, gp_x = 0, gp_y = 1\<rparr>, targets = [],
       field_unit = None\<rparr>,
      \<lparr>id_panel = 3, title = ''CPU Utilization'', type_panel = ''timeseries'',
       datasource = Some ''prometheus-uid'',
       gridPos = \<lparr>gp_h = 10, gp_w = 12, gp_x = 0, gp_y = 2\<rparr>,
       targets =
         [\<lparr>expr = ''100 - (avg by(instance) (rate(node_cpu_seconds_total{mode="idle",instance="10.0.0.5:9100"}[5m])) * 100)'',
           legendFormat = Some ''10.0.0.5 CPU'', format = None\<rparr>],
       field_unit = Some ''percent''\<rparr>,
      \<lparr>id_panel = 3, title = ''Memory Usage'', type_panel = ''timeseries'',
       datasource = Some ''prometheus-uid'',
       gridPos = \<lparr>gp_h = 10, gp_w = 12, gp_x = 12, gp_y = 2\<rparr>,
       targets =
         [\<lparr>expr = ''(1 - (node_memory_MemAvailable_bytes{instance="10.0.0.5:9100"} / node_memory_MemTotal_bytes{instance="10.0.0.5:9100"})) * 100'',
           legendFormat = Some ''10.0.0.5 Memory'', format = None\<rparr>],
       field_unit = Some ''percent''\<rparr>]\<close>
  by code_simp

section \<open>Panel ids\<close>

text \<open>
  Claim C1. Panel ids should increase strictly along the panel list. In the end-to-end
  scenario the assembler gives the CPU panel and the memory panel the same id 3:
  \<^verbatim>\<open>_cpu_panel_template\<close> does not advance \<^verbatim>\<open>panel_id\<close>, unlike the other templates, so
  the ids of the assembled list are not strictly increasing.
\<close>

theorem scenario_panel_ids_repeat:
  "map id_panel (panels (snd (build_smart_dashboard prom scenario_generator))) = [1, 2, 3, 3]
   \<and> \<not> sorted_wrt (<) (map id_panel (panels (snd (build_smart_dashboard prom scenario_generator))))"
proof -
  have ids: "map id_panel (panels (snd (build_smart_dashboard prom scenario_generator))) = [1, 2, 3, 3]"
    by code_simp
  show ?thesis unfolding ids by simp
qed

section \<open>Layout of the assembled dashboard\<close>

lemma no_overlap_snoc:
  "no_overlap ps \<Longrightarrow> above_line c ps \<Longrightarrow> c \<le> gp_y (gridPos p) \<Longrightarrow> no_overlap (ps @ [p])"
  by (auto simp: no_overlap_def above_line_def sorted_wrt_append overlaps_def list_all_iff)

lemma above_line_mono: "above_line c ps \<Longrightarrow> c \<le> c' \<Longrightarrow> above_line c' ps"
  by (auto simp: above_line_def list_all_iff)

lemma above_line_snoc:
  "above_line c (ps @ [p]) \<longleftrightarrow> above_line c ps \<and> gp_y (gridPos p) + gp_h (gridPos p) \<le> c"
  by (auto simp: above_line_def)

lemma add_row_layout: "layout_ok s \<Longrightarrow> layout_ok (add_row t s)"
  by (cases s) (auto simp: layout_ok_def append_panel_def above_line_snoc
                     intro: no_overlap_snoc above_line_mono)

lemma add_row_frame:
  "current_y (fst (add_row t s)) = current_y (fst s) + 1"
  "nodes (fst (add_row t s)) = nodes (fst s)"
  "all_metrics (fst (add_row t s)) = all_metrics (fst s)"
  by (cases s, simp)+

lemma overview_ok_start: "layout_ok (g, d) \<Longrightarrow> overview_ok (current_y g) (g, d, 0)"
  by (auto simp: layout_ok_def overview_ok_def above_line_def list_all_iff)

lemma overview_ok_gauge:
  assumes "overview_ok c (g, d, x)" and "current_y g' = current_y g"
    and "gridPos p = \<lparr>gp_h = 5, gp_w = panel_width, gp_x = x, gp_y = current_y g\<rparr>"
  shows "overview_ok c (g', append_panel p d, x + panel_width)"
  using assms
  by (auto simp: overview_ok_def append_panel_def panel_width_def no_overlap_def
        sorted_wrt_append overlaps_def list_all_iff)

lemma overview_temperature_ok:
  "overview_ok c (g, d, x) \<Longrightarrow> overview_ok c (overview_temperature (g, d, x))"
  by (auto simp: Let_def temperature_panel_template_def intro!: overview_ok_gauge)

lemma overview_power_ok:
  "overview_ok c (g, d, x) \<Longrightarrow> overview_ok c (overview_power (g, d, x))"
  by (auto simp: Let_def power_panel_template_def intro!: overview_ok_gauge)

lemma overview_npu_ok:
  "overview_ok c (g, d, x) \<Longrightarrow> overview_ok c (overview_npu (g, d, x))"
  by (auto simp: Let_def intro!: overview_ok_gauge)

lemma overview_temperature_frame:
  "nodes (fst (overview_temperature (g, d, x))) = nodes g"
  "all_metrics (fst (overview_temperature (g, d, x))) = all_metrics g"
  "current_y (fst (overview_temperature (g, d, x))) = current_y g"
  "snd (snd (overview_temperature (g, d, x)))
     = x + (if has_temperature g \<and> build_temperature_targets g \<noteq> [] then 6 else 0)"
  by (simp_all add: Let_def temperature_panel_template_def panel_width_def)

lemma overview_power_frame:
  "nodes (fst (overview_power (g, d, x))) = nodes g"
  "all_metrics (fst (overview_power (g, d, x))) = all_metrics g"
  "current_y (fst (overview_power (g, d, x))) = current_y g"
  "snd (snd (overview_power (g, d, x)))
     = x + (if has_power g \<and> build_power_targets g \<noteq> [] then 6 else 0)"
  by (simp_all add: Let_def power_panel_template_def panel_width_def)

lemma overview_npu_frame:
  "nodes (fst (overview_npu (g, d, x))) = nodes g"
  "all_metrics (fst (overview_npu (g, d, x))) = all_metrics g"
  "current_y (fst (overview_npu (g, d, x))) = current_y g"
  "snd (snd (overview_npu (g, d, x))) = x + (if has_npu g then 6 else 0)"
  by (simp_all add: Let_def panel_width_def)


declare overview_temperature.simps [simp del] overview_power.simps [simp del]
  overview_npu.simps [simp del] add_overview_panels.simps [simp del]

lemma overview_ok_finish:
  assumes "overview_ok c (g, d, x)"
  shows "layout_ok (if x > 0 then (g\<lparr>current_y := current_y g + 6\<rparr>, d) else (g, d))"
  using assms
  by (auto simp: overview_ok_def layout_ok_def above_line_def list_all_iff)

lemma has_power_cong: "nodes g' = nodes g \<Longrightarrow> has_power g' = has_power g"
  by (simp add: has_power_def)

lemma build_power_targets_cong:
  "nodes g' = nodes g \<Longrightarrow> build_power_targets g' = build_power_targets g"
  by (simp add: build_power_targets_def)

lemma has_npu_cong: "nodes g' = nodes g \<Longrightarrow> has_npu g' = has_npu g"
  by (simp add: has_npu_def)

lemma add_overview_panels_facts:
  assumes "layout_ok s"
  shows "layout_ok (add_overview_panels s)"
    and "current_y (fst (add_overview_panels s))
           = current_y (fst s) + (if overview_has_panels (fst s) then 6 else 0)"
    and "nodes (fst (add_overview_panels s)) = nodes (fst s)"
    and "all_metrics (fst (add_overview_panels s)) = all_metrics (fst s)"
proof -
  obtain g d where s: "s = (g, d)" by (cases s)
  obtain g1 d1 x1 where t1: "overview_temperature (g, d, 0) = (g1, d1, x1)"
    by (cases "overview_temperature (g, d, 0)")
  obtain g2 d2 x2 where t2: "overview_power (g1, d1, x1) = (g2, d2, x2)"
    by (cases "overview_power (g1, d1, x1)")
  obtain g3 d3 x3 where t3: "overview_npu (g2, d2, x2) = (g3, d3, x3)"
    by (cases "overview_npu (g2, d2, x2)")
  have f1: "nodes g1 = nodes g" "all_metrics g1 = all_metrics g" "current_y g1 = current_y g"
    "x1 = (if has_temperature g \<and> build_temperature_targets g \<noteq> [] then 6 else 0)"
    using overview_temperature_frame [of g d 0] by (simp_all add: t1)
  have f2: "nodes g2 = nodes g1" "all_metrics g2 = all_metrics g1" "current_y g2 = current_y g1"
    "x2 = x1 + (if has_power g1 \<and> build_power_targets g1 \<noteq> [] then 6 else 0)"
    using overview_power_frame [of g1 d1 x1] by (simp_all add: t2)
  have f3: "nodes g3 = nodes g2" "all_metrics g3 = all_metrics g2" "current_y g3 = current_y g2"
    "x3 = x2 + (if has_npu g2 then 6 else 0)"
    using overview_npu_frame [of g2 d2 x2] by (simp_all add: t3)
  have x3: "x3 > 0 \<longleftrightarrow> overview_has_panels g"
    using f1 f2 f3
    by (simp add: overview_has_panels_def has_power_cong [of g1 g]
          build_power_targets_cong [of g1 g] has_npu_cong [of g2 g])
  have "overview_ok (current_y g) (g, d, 0)"
    using assms by (simp add: s overview_ok_start)
  then have "overview_ok (current_y g) (g1, d1, x1)"
    using overview_temperature_ok [of "current_y g" g d 0] by (simp add: t1)
  then have "overview_ok (current_y g) (g2, d2, x2)"
    using overview_power_ok [of "current_y g" g1 d1 x1] by (simp add: t2)
  then have ok: "overview_ok (current_y g) (g3, d3, x3)"
    using overview_npu_ok [of "current_y g" g2 d2 x2] by (simp add: t3)
  have res: "add_overview_panels (g, d)
      = (if x3 > 0 then (g3\<lparr>current_y := current_y g3 + 6\<rparr>, d3) else (g3, d3))"
    by (simp add: add_overview_panels.simps t1 t2 t3)
  show "layout_ok (add_overview_panels s)"
    unfolding s res by (rule overview_ok_finish [OF ok])
  have cy: "current_y g3 = current_y g"
    using f1(3) f2(3) f3(3) by simp
  show "current_y (fst (add_overview_panels s))
           = current_y (fst s) + (if overview_has_panels (fst s) then 6 else 0)"
  proof (cases "0 < x3")
    case True
    then show ?thesis using x3 cy by (simp add: s res)
  next
    case False
    then show ?thesis using x3 cy by (simp add: s res)
  qed
  show "nodes (fst (add_overview_panels s)) = nodes (fst s)"
    using f1(1) f2(1) f3(1) by (simp add: s res)
  show "all_metrics (fst (add_overview_panels s)) = all_metrics (fst s)"
    using f1(2) f2(2) f3(2) by (simp add: s res)
qed

lemma add_gpu_panels_facts:
  assumes "layout_ok s"
  shows "layout_ok (add_gpu_panels s)"
    and "current_y (fst (add_gpu_panels s))
           = current_y (fst s) + (if build_gpu_targets (fst s) \<noteq> [] then 11 else 0)"
    and "nodes (fst (add_gpu_panels s)) = nodes (fst s)"
    and "all_metrics (fst (add_gpu_panels s)) = all_metrics (fst s)"
  using assms
  by (cases s; auto simp: Let_def layout_ok_def append_panel_def gpu_panel_template_def
        cpu_panel_template_def no_overlap_def sorted_wrt_append overlaps_def above_line_def
        list_all_iff)+

lemma add_cpu_memory_panels_facts:
  assumes "layout_ok s"
  shows "layout_ok (add_cpu_memory_panels s)"
    and "current_y (fst (add_cpu_memory_panels s)) = current_y (fst s) + 11"
    and "nodes (fst (add_cpu_memory_panels s)) = nodes (fst s)"
    and "all_metrics (fst (add_cpu_memory_panels s)) = all_metrics (fst s)"
  using assms
  by (cases s; auto simp: Let_def layout_ok_def append_panel_def memory_panel_template_def
        cpu_panel_template_def no_overlap_def sorted_wrt_append overlaps_def above_line_def
        list_all_iff)+

lemma add_disk_panels_facts:
  assumes "layout_ok s"
  shows "layout_ok (add_disk_panels prom s)"
    and "current_y (fst (add_disk_panels prom s)) = current_y (fst s) + 11"
    and "nodes (fst (add_disk_panels prom s)) = nodes (fst s)"
    and "all_metrics (fst (add_disk_panels prom s)) = all_metrics (fst s)"
  using assms
  by (cases s; auto simp: Let_def layout_ok_def append_panel_def disk_panel_template_def
        no_overlap_def sorted_wrt_append overlaps_def above_line_def
        list_all_iff)+

lemma add_network_panels_facts:
  assumes "layout_ok s"
  shows "layout_ok (add_network_panels prom s)"
    and "current_y (fst (add_network_panels prom s))
           = current_y (fst s) + (if build_network_targets prom (fst s) \<noteq> [] then 11 else 0)"
    and "nodes (fst (add_network_panels prom s)) = nodes (fst s)"
    and "all_metrics (fst (add_network_panels prom s)) = all_metrics (fst s)"
  using assms
  by (cases s; auto simp: Let_def layout_ok_def append_panel_def disk_panel_template_def
        network_panel_template_def no_overlap_def sorted_wrt_append overlaps_def above_line_def
        list_all_iff)+

lemma add_process_panels_facts:
  assumes "layout_ok s"
  shows "layout_ok (add_process_panels s)"
    and "current_y (fst (add_process_panels s)) = current_y (fst s) + 13"
    and "nodes (fst (add_process_panels s)) = nodes (fst s)"
    and "all_metrics (fst (add_process_panels s)) = all_metrics (fst s)"
  using assms
  by (cases s; auto simp: Let_def layout_ok_def append_panel_def process_panel_template_def
        build_process_targets_def no_overlap_def sorted_wrt_append overlaps_def above_line_def
        list_all_iff)+


declare add_row.simps [simp del] add_gpu_panels.simps [simp del]
  add_cpu_memory_panels.simps [simp del] add_disk_panels.simps [simp del]
  add_network_panels.simps [simp del] add_process_panels.simps [simp del]

lemma discovery_cong:
  assumes "nodes g' = nodes g" and "all_metrics g' = all_metrics g"
  shows "overview_has_panels g' = overview_has_panels g"
    and "has_any_gpu g' = has_any_gpu g"
    and "build_gpu_targets g' = build_gpu_targets g"
    and "has_disk_metrics g' = has_disk_metrics g"
    and "has_network_metrics g' = has_network_metrics g"
    and "build_network_targets prom g' = build_network_targets prom g"
    and "has_process_metrics g' = has_process_metrics g"
  using assms
  by (simp_all add: overview_has_panels_def has_temperature_def has_power_def has_npu_def
        build_temperature_targets_def build_power_targets_def has_any_gpu_def
        build_gpu_targets_def has_disk_metrics_def has_network_metrics_def
        build_network_targets_def has_process_metrics_def)

lemma assembled_start: "assembled g 0 (g, empty_dashboard)"
  by (simp add: assembled_def layout_ok_def empty_dashboard_def no_overlap_def above_line_def)

lemma assembled_row: "assembled g c s \<Longrightarrow> assembled g (c + 1) (add_row t s)"
  by (simp add: assembled_def add_row_layout add_row_frame)

lemma assembled_overview:
  "assembled g c s \<Longrightarrow>
   assembled g (c + (if overview_has_panels g then 6 else 0)) (add_overview_panels s)"
  by (simp add: assembled_def add_overview_panels_facts discovery_cong(1) [of "fst s" g])

lemma assembled_gpu:
  assumes "assembled g c s"
  shows "assembled g
           (c + (if has_any_gpu g then 1 + (if build_gpu_targets g \<noteq> [] then 11 else 0) else 0))
           (gpu_section s)"
proof (cases "has_any_gpu g")
  case True
  have r: "assembled g (c + 1) (add_row (sym_rocket @ '' GPU & Accelerators'') s)"
    by (rule assembled_row [OF assms])
  have "has_any_gpu (fst s)"
    using True assms discovery_cong(2) [of "fst s" g] by (simp add: assembled_def)
  then have eq: "gpu_section s = add_gpu_panels (add_row (sym_rocket @ '' GPU & Accelerators'') s)"
    by (simp add: gpu_section_def)
  show ?thesis
    using r True
    by (simp add: eq assembled_def add_gpu_panels_facts
          discovery_cong(3) [of "fst (add_row (sym_rocket @ '' GPU & Accelerators'') s)" g])
next
  case False
  then have "\<not> has_any_gpu (fst s)"
    using assms discovery_cong(2) [of "fst s" g] by (simp add: assembled_def)
  then show ?thesis using False assms by (simp add: gpu_section_def)
qed

lemma assembled_cpu_memory:
  "assembled g c s \<Longrightarrow> assembled g (c + 11) (add_cpu_memory_panels s)"
  by (simp add: assembled_def add_cpu_memory_panels_facts)

lemma assembled_disk:
  assumes "assembled g c s"
  shows "assembled g (c + (if has_disk_metrics g then 1 + 11 else 0)) (disk_section prom s)"
proof (cases "has_disk_metrics g")
  case True
  have r: "assembled g (c + 1) (add_row (sym_floppy @ '' Storage'') s)"
    by (rule assembled_row [OF assms])
  have "has_disk_metrics (fst s)"
    using True assms discovery_cong(4) [of "fst s" g] by (simp add: assembled_def)
  then have eq: "disk_section prom s = add_disk_panels prom (add_row (sym_floppy @ '' Storage'') s)"
    by (simp add: disk_section_def)
  show ?thesis
    using r True by (simp add: eq assembled_def add_disk_panels_facts)
next
  case False
  then have "\<not> has_disk_metrics (fst s)"
    using assms discovery_cong(4) [of "fst s" g] by (simp add: assembled_def)
  then show ?thesis using False assms by (simp add: disk_section_def)
qed

lemma assembled_network:
  assumes "assembled g c s"
  shows "assembled g
           (c + (if has_network_metrics g
                 then 1 + (if build_network_targets prom g \<noteq> [] then 11 else 0) else 0))
           (network_section prom s)"
proof (cases "has_network_metrics g")
  case True
  have r: "assembled g (c + 1) (add_row (sym_globe @ '' Network'') s)"
    by (rule assembled_row [OF assms])
  have "has_network_metrics (fst s)"
    using True assms discovery_cong(5) [of "fst s" g] by (simp add: assembled_def)
  then have eq: "network_section prom s
      = add_network_panels prom (add_row (sym_globe @ '' Network'') s)"
    by (simp add: network_section_def)
  show ?thesis
    using r True
    by (simp add: eq assembled_def add_network_panels_facts
          discovery_cong(6) [of "fst (add_row (sym_globe @ '' Network'') s)" g])
next
  case False
  then have "\<not> has_network_metrics (fst s)"
    using assms discovery_cong(5) [of "fst s" g] by (simp add: assembled_def)
  then show ?thesis using False assms by (simp add: network_section_def)
qed

lemma assembled_process:
  assumes "assembled g c s"
  shows "assembled g (c + (if has_process_metrics g then 1 + 13 else 0)) (process_section s)"
proof (cases "has_process_metrics g")
  case True
  have r: "assembled g (c + 1) (add_row (sym_chart @ '' Processes'') s)"
    by (rule assembled_row [OF assms])
  have "has_process_metrics (fst s)"
    using True assms discovery_cong(7) [of "fst s" g] by (simp add: assembled_def)
  then have eq: "process_section s = add_process_panels (add_row (sym_chart @ '' Processes'') s)"
    by (simp add: process_section_def)
  show ?thesis
    using r True by (simp add: eq assembled_def add_process_panels_facts)
next
  case False
  then have "\<not> has_process_metrics (fst s)"
    using assms discovery_cong(7) [of "fst s" g] by (simp add: assembled_def)
  then show ?thesis using False assms by (simp add: process_section_def)
qed

lemma build_smart_dashboard_assembled:
  "assembled g (cursor_advance prom g) (build_smart_dashboard prom g)"
proof -
  have "assembled g (0 + 1 + (if overview_has_panels g then 6 else 0)
          + (if has_any_gpu g then 1 + (if build_gpu_targets g \<noteq> [] then 11 else 0) else 0)
          + 1 + 11
          + (if has_disk_metrics g then 1 + 11 else 0)
          + (if has_network_metrics g
             then 1 + (if build_network_targets prom g \<noteq> [] then 11 else 0) else 0)
          + (if has_process_metrics g then 1 + 13 else 0))
        (build_smart_dashboard prom g)"
    unfolding build_smart_dashboard_def
    by (intro assembled_process assembled_network assembled_disk assembled_cpu_memory
          assembled_row assembled_gpu assembled_overview assembled_start)
  then show ?thesis by (simp add: cursor_advance_def)
qed

lemmas sym_defs = sym_dart_def sym_rocket_def sym_laptop_def sym_floppy_def sym_globe_def
  sym_chart_def sym_thermometer_def sym_high_voltage_def sym_brain_def sym_fire_def

lemma accounted_start: "accounted g 0 False (g, empty_dashboard)"
  by (simp add: accounted_def empty_dashboard_def)

lemma accounted_row:
  "accounted g a b s \<Longrightarrow>
   accounted g
     (a + (1 + (if t = sym_laptop @ '' CPU & Memory'' \<or> t = sym_floppy @ '' Storage'' then 11
                else if t = sym_chart @ '' Processes'' then 13 else 0)))
     b (add_row t s)"
  by (cases s) (simp add: accounted_def add_row.simps append_panel_def panel_advance_def
                  is_overview_panel_def)

lemma row_advances:
  "(1 + (if sym_dart @ '' System Overview'' = sym_laptop @ '' CPU & Memory''
           \<or> sym_dart @ '' System Overview'' = sym_floppy @ '' Storage'' then 11
         else if sym_dart @ '' System Overview'' = sym_chart @ '' Processes'' then 13 else 0)) = (1::int)"
  "(1 + (if sym_rocket @ '' GPU & Accelerators'' = sym_laptop @ '' CPU & Memory''
           \<or> sym_rocket @ '' GPU & Accelerators'' = sym_floppy @ '' Storage'' then 11
         else if sym_rocket @ '' GPU & Accelerators'' = sym_chart @ '' Processes'' then 13 else 0)) = (1::int)"
  "(1 + (if sym_laptop @ '' CPU & Memory'' = sym_laptop @ '' CPU & Memory''
           \<or> sym_laptop @ '' CPU & Memory'' = sym_floppy @ '' Storage'' then 11
         else if sym_laptop @ '' CPU & Memory'' = sym_chart @ '' Processes'' then 13 else 0)) = (12::int)"
  "(1 + (if sym_floppy @ '' Storage'' = sym_laptop @ '' CPU & Memory''
           \<or> sym_floppy @ '' Storage'' = sym_floppy @ '' Storage'' then 11
         else if sym_floppy @ '' Storage'' = sym_chart @ '' Processes'' then 13 else 0)) = (12::int)"
  "(1 + (if sym_globe @ '' Network'' = sym_laptop @ '' CPU & Memory''
           \<or> sym_globe @ '' Network'' = sym_floppy @ '' Storage'' then 11
         else if sym_globe @ '' Network'' = sym_chart @ '' Processes'' then 13 else 0)) = (1::int)"
  "(1 + (if sym_chart @ '' Processes'' = sym_laptop @ '' CPU & Memory''
           \<or> sym_chart @ '' Processes'' = sym_floppy @ '' Storage'' then 11
         else if sym_chart @ '' Processes'' = sym_chart @ '' Processes'' then 13 else 0)) = (14::int)"
  by (simp_all add: sym_defs)

lemma overview_temperature_accounts:
  "sum_list (map panel_advance (panels (fst (snd (overview_temperature (g, d, x))))))
     = sum_list (map panel_advance (panels d))"
  "list_ex is_overview_panel (panels (fst (snd (overview_temperature (g, d, x)))))
     \<longleftrightarrow> list_ex is_overview_panel (panels d)
          \<or> (has_temperature g \<and> build_temperature_targets g \<noteq> [])"
  by (simp_all add: overview_temperature.simps Let_def temperature_panel_template_def
        append_panel_def panel_advance_def is_overview_panel_def sym_defs)

lemma overview_power_accounts:
  "sum_list (map panel_advance (panels (fst (snd (overview_power (g, d, x))))))
     = sum_list (map panel_advance (panels d))"
  "list_ex is_overview_panel (panels (fst (snd (overview_power (g, d, x)))))
     \<longleftrightarrow> list_ex is_overview_panel (panels d) \<or> (has_power g \<and> build_power_targets g \<noteq> [])"
  by (simp_all add: overview_power.simps Let_def power_panel_template_def
        append_panel_def panel_advance_def is_overview_panel_def sym_defs)

lemma overview_npu_accounts:
  "sum_list (map panel_advance (panels (fst (snd (overview_npu (g, d, x))))))
     = sum_list (map panel_advance (panels d))"
  "list_ex is_overview_panel (panels (fst (snd (overview_npu (g, d, x)))))
     \<longleftrightarrow> list_ex is_overview_panel (panels d) \<or> has_npu g"
  by (simp_all add: overview_npu.simps Let_def
        append_panel_def panel_advance_def is_overview_panel_def sym_defs)

lemma accounted_overview:
  assumes "accounted g a b s"
  shows "accounted g a (b \<or> overview_has_panels g) (add_overview_panels s)"
proof -
  obtain g0 d where s: "s = (g0, d)" by (cases s)
  obtain g1 d1 x1 where t1: "overview_temperature (g0, d, 0) = (g1, d1, x1)"
    by (cases "overview_temperature (g0, d, 0)")
  obtain g2 d2 x2 where t2: "overview_power (g1, d1, x1) = (g2, d2, x2)"
    by (cases "overview_power (g1, d1, x1)")
  obtain g3 d3 x3 where t3: "overview_npu (g2, d2, x2) = (g3, d3, x3)"
    by (cases "overview_npu (g2, d2, x2)")
  have n0: "nodes g0 = nodes g" "all_metrics g0 = all_metrics g"
    using assms by (simp_all add: accounted_def s)
  have f1: "nodes g1 = nodes g0" "all_metrics g1 = all_metrics g0"
    using overview_temperature_frame(1,2) [of g0 d 0] by (simp_all add: t1)
  have f2: "nodes g2 = nodes g1" "all_metrics g2 = all_metrics g1"
    using overview_power_frame(1,2) [of g1 d1 x1] by (simp_all add: t2)
  have f3: "nodes g3 = nodes g2" "all_metrics g3 = all_metrics g2"
    using overview_npu_frame(1,2) [of g2 d2 x2] by (simp_all add: t3)
  have a1: "sum_list (map panel_advance (panels d1)) = sum_list (map panel_advance (panels d))"
    "list_ex is_overview_panel (panels d1)
       \<longleftrightarrow> list_ex is_overview_panel (panels d)
            \<or> (has_temperature g0 \<and> build_temperature_targets g0 \<noteq> [])"
    using overview_temperature_accounts [of g0 d 0] by (simp_all add: t1)
  have a2: "sum_list (map panel_advance (panels d2)) = sum_list (map panel_advance (panels d1))"
    "list_ex is_overview_panel (panels d2)
       \<longleftrightarrow> list_ex is_overview_panel (panels d1) \<or> (has_power g1 \<and> build_power_targets g1 \<noteq> [])"
    using overview_power_accounts [of g1 d1 x1] by (simp_all add: t2)
  have a3: "sum_list (map panel_advance (panels d3)) = sum_list (map panel_advance (panels d2))"
    "list_ex is_overview_panel (panels d3) \<longleftrightarrow> list_ex is_overview_panel (panels d2) \<or> has_npu g2"
    using overview_npu_accounts [of g2 d2 x2] by (simp_all add: t3)
  have ov: "overview_has_panels g
      \<longleftrightarrow> (has_temperature g0 \<and> build_temperature_targets g0 \<noteq> [])
           \<or> (has_power g1 \<and> build_power_targets g1 \<noteq> []) \<or> has_npu g2"
    using n0 f1 f2
    by (simp add: overview_has_panels_def has_temperature_def build_temperature_targets_def
          has_power_def build_power_targets_def has_npu_def)
  have res: "panels (snd (add_overview_panels (g0, d))) = panels d3"
    "nodes (fst (add_overview_panels (g0, d))) = nodes g3"
    "all_metrics (fst (add_overview_panels (g0, d))) = all_metrics g3"
    by (simp_all add: add_overview_panels.simps t1 t2 t3)
  have old: "sum_list (map panel_advance (panels d)) = a" "list_ex is_overview_panel (panels d) \<longleftrightarrow> b"
    using assms by (simp_all add: accounted_def s)
  show ?thesis
    unfolding accounted_def s res
    using n0 f1 f2 f3 a1 a2 a3 ov old by simp
qed

lemma accounted_gpu_panels:
  "accounted g a b s \<Longrightarrow>
   accounted g (a + (if build_gpu_targets g \<noteq> [] then 11 else 0)) b (add_gpu_panels s)"
  by (cases s)
    (simp add: accounted_def add_gpu_panels.simps Let_def append_panel_def
       gpu_panel_template_def cpu_panel_template_def panel_advance_def is_overview_panel_def
       build_gpu_targets_def)

lemma accounted_cpu_memory_panels:
  "accounted g a b s \<Longrightarrow> accounted g a b (add_cpu_memory_panels s)"
  by (cases s)
    (simp add: accounted_def add_cpu_memory_panels.simps Let_def append_panel_def
       memory_panel_template_def cpu_panel_template_def panel_advance_def is_overview_panel_def
       sym_defs)

lemma accounted_disk_panels:
  "accounted g a b s \<Longrightarrow> accounted g a b (add_disk_panels prom s)"
  by (cases s)
    (simp add: accounted_def add_disk_panels.simps Let_def append_panel_def
       disk_panel_template_def panel_advance_def is_overview_panel_def sym_defs
       split: prod.splits)

lemma accounted_network_panels:
  "accounted g a b s \<Longrightarrow>
   accounted g (a + (if build_network_targets prom g \<noteq> [] then 11 else 0)) b
     (add_network_panels prom s)"
  by (cases s)
    (simp add: accounted_def add_network_panels.simps Let_def append_panel_def
       network_panel_template_def disk_panel_template_def panel_advance_def
       is_overview_panel_def build_network_targets_def sym_defs)

lemma accounted_process_panels:
  "accounted g a b s \<Longrightarrow> accounted g a b (add_process_panels s)"
  by (cases s)
    (simp add: accounted_def add_process_panels.simps Let_def append_panel_def
       process_panel_template_def build_process_targets_def panel_advance_def
       is_overview_panel_def sym_defs)


lemma accounted_gpu_section:
  assumes "accounted g a b s"
  shows "accounted g
           (a + (if has_any_gpu g then 1 + (if build_gpu_targets g \<noteq> [] then 11 else 0) else 0))
           b (gpu_section s)"
proof -
  have same: "has_any_gpu (fst s) = has_any_gpu g"
    using assms discovery_cong(2) [of "fst s" g] by (simp add: accounted_def)
  show ?thesis
  proof (cases "has_any_gpu g")
    case True
    have "accounted g (a + 1) b (add_row (sym_rocket @ '' GPU & Accelerators'') s)"
      using accounted_row [OF assms, of "sym_rocket @ '' GPU & Accelerators''"]
      unfolding row_advances .
    then have "accounted g (a + 1 + (if build_gpu_targets g \<noteq> [] then 11 else 0)) b
        (add_gpu_panels (add_row (sym_rocket @ '' GPU & Accelerators'') s))"
      by (rule accounted_gpu_panels)
    then show ?thesis
      using True same by (simp add: gpu_section_def add.assoc)
  next
    case False
    then show ?thesis using same assms by (simp add: gpu_section_def)
  qed
qed

lemma accounted_cpu_memory:
  assumes "accounted g a b s"
  shows "accounted g (a + 12) b
           (add_cpu_memory_panels (add_row (sym_laptop @ '' CPU & Memory'') s))"
proof -
  have "accounted g (a + 12) b (add_row (sym_laptop @ '' CPU & Memory'') s)"
    using accounted_row [OF assms, of "sym_laptop @ '' CPU & Memory''"]
    unfolding row_advances .
  then show ?thesis by (rule accounted_cpu_memory_panels)
qed

lemma accounted_disk_section:
  assumes "accounted g a b s"
  shows "accounted g (a + (if has_disk_metrics g then 12 else 0)) b (disk_section prom s)"
proof -
  have same: "has_disk_metrics (fst s) = has_disk_metrics g"
    using assms discovery_cong(4) [of "fst s" g] by (simp add: accounted_def)
  show ?thesis
  proof (cases "has_disk_metrics g")
    case True
    have "accounted g (a + 12) b (add_row (sym_floppy @ '' Storage'') s)"
      using accounted_row [OF assms, of "sym_floppy @ '' Storage''"]
      unfolding row_advances .
    then have "accounted g (a + 12) b
        (add_disk_panels prom (add_row (sym_floppy @ '' Storage'') s))"
      by (rule accounted_disk_panels)
    then show ?thesis
      using True same by (simp add: disk_section_def)
  next
    case False
    then show ?thesis using same assms by (simp add: disk_section_def)
  qed
qed

lemma accounted_network_section:
  assumes "accounted g a b s"
  shows "accounted g
           (a + (if has_network_metrics g
                 then 1 + (if build_network_targets prom g \<noteq> [] then 11 else 0) else 0))
           b (network_section prom s)"
proof -
  have same: "has_network_metrics (fst s) = has_network_metrics g"
    using assms discovery_cong(5) [of "fst s" g] by (simp add: accounted_def)
  show ?thesis
  proof (cases "has_network_metrics g")
    case True
    have "accounted g (a + 1) b (add_row (sym_globe @ '' Network'') s)"
      using accounted_row [OF assms, of "sym_globe @ '' Network''"]
      unfolding row_advances .
    then have "accounted g (a + 1 + (if build_network_targets prom g \<noteq> [] then 11 else 0)) b
        (add_network_panels prom (add_row (sym_globe @ '' Network'') s))"
      by (rule accounted_network_panels)
    then show ?thesis
      using True same by (simp add: network_section_def add.assoc)
  next
    case False
    then show ?thesis using same assms by (simp add: network_section_def)
  qed
qed

lemma accounted_process_section:
  assumes "accounted g a b s"
  shows "accounted g (a + (if has_process_metrics g then 14 else 0)) b (process_section s)"
proof -
  have same: "has_process_metrics (fst s) = has_process_metrics g"
    using assms discovery_cong(7) [of "fst s" g] by (simp add: accounted_def)
  show ?thesis
  proof (cases "has_process_metrics g")
    case True
    have "accounted g (a + 14) b (add_row (sym_chart @ '' Processes'') s)"
      using accounted_row [OF assms, of "sym_chart @ '' Processes''"]
      unfolding row_advances .
    then have "accounted g (a + 14) b
        (add_process_panels (add_row (sym_chart @ '' Processes'') s))"
      by (rule accounted_process_panels)
    then show ?thesis
      using True same by (simp add: process_section_def)
  next
    case False
    then show ?thesis using same assms by (simp add: process_section_def)
  qed
qed

lemma accounted_overview_section:
  "accounted g 1 (overview_has_panels g)
     (add_overview_panels (add_row (sym_dart @ '' System Overview'') (g, empty_dashboard)))"
proof -
  have "accounted g (0 + 1) False (add_row (sym_dart @ '' System Overview'') (g, empty_dashboard))"
    using accounted_row [OF accounted_start [of g], of "sym_dart @ '' System Overview''"]
    unfolding row_advances .
  then have "accounted g (0 + 1) (False \<or> overview_has_panels g)
      (add_overview_panels (add_row (sym_dart @ '' System Overview'') (g, empty_dashboard)))"
    by (rule accounted_overview)
  then show ?thesis by simp
qed

lemma build_smart_dashboard_accounted:
  "cursor_of_panels (panels (snd (build_smart_dashboard prom g))) = cursor_advance prom g"
proof -
  have "accounted g
          (1 + (if has_any_gpu g then 1 + (if build_gpu_targets g \<noteq> [] then 11 else 0) else 0)
           + 12
           + (if has_disk_metrics g then 12 else 0)
           + (if has_network_metrics g
              then 1 + (if build_network_targets prom g \<noteq> [] then 11 else 0) else 0)
           + (if has_process_metrics g then 14 else 0))
          (overview_has_panels g)
          (build_smart_dashboard prom g)"
    unfolding build_smart_dashboard_def
    by (intro accounted_process_section accounted_network_section accounted_disk_section
          accounted_cpu_memory accounted_gpu_section accounted_overview_section)
  then show ?thesis
    by (simp add: accounted_def cursor_of_panels_def cursor_advance_def)
qed

text \<open>
  Claim C2, as amended. For every discovery state and every server, no two panels of the
  assembled dashboard have overlapping grid rectangles, and the assembler advances
  \<^verbatim>\<open>current_y\<close> by what the assembled panel list accounts for: 1 for each row separator in
  the list, 6 when the list holds an overview panel, 11 when it holds the GPU panel, 11 for
  the CPU and Memory row, 11 for the Storage row, 11 when it holds the network panel and 13
  for the Processes row. The same amount, read off the discovery state: the GPU panel and
  the network panel are present exactly when their section is included and has targets, an
  overview panel exactly when temperature or power targets or an NPU exist.
\<close>

theorem layout_no_overlap_and_cursor:
  "no_overlap (panels (snd (build_smart_dashboard prom g)))
   \<and> current_y (fst (build_smart_dashboard prom g))
     = current_y g + cursor_of_panels (panels (snd (build_smart_dashboard prom g)))
   \<and> cursor_of_panels (panels (snd (build_smart_dashboard prom g))) = cursor_advance prom g"
  using build_smart_dashboard_assembled [of g prom]
  by (simp add: assembled_def layout_ok_def build_smart_dashboard_accounted)

theorem layout_no_overlap_and_cursor_witness:
  "no_overlap (panels (snd (build_smart_dashboard unreachable_prometheus gpu_with_gauge)))
   \<and> current_y (fst (build_smart_dashboard unreachable_prometheus gpu_with_gauge)) = 25
   \<and> cursor_of_panels (panels (snd (build_smart_dashboard unreachable_prometheus gpu_with_gauge)))
     = 25
   \<and> length (panels (snd (build_smart_dashboard unreachable_prometheus gpu_with_gauge))) = 4"
proof -
  have c: "current_y gpu_with_gauge = 0"
    by (simp add: gpu_with_gauge_def init_generator_def)
  have a: "cursor_advance unreachable_prometheus gpu_with_gauge = 25"
    by code_simp
  have l: "length (panels (snd (build_smart_dashboard unreachable_prometheus gpu_with_gauge))) = 4"
    by code_simp
  show ?thesis
    using layout_no_overlap_and_cursor [of unreachable_prometheus gpu_with_gauge] l
    unfolding c a by simp
qed

text \<open>
  Claim C2 as stated fails in its second half: the cursor is not a sum of one fixed
  increment per included section. The two discovery states below include the same
  sections (Overview, GPU and Accelerators, CPU and Memory), yet the cursor ends at 14 in
  the first, where the GPU section has a row separator and no panel, and at 25 in the
  second.
\<close>

theorem cursor_not_fixed_per_section:
  "included_sections (snd (build_smart_dashboard unreachable_prometheus gpu_without_gauge))
     = [sym_dart @ '' System Overview'', sym_rocket @ '' GPU & Accelerators'',
        sym_laptop @ '' CPU & Memory'']
   \<and> included_sections (snd (build_smart_dashboard unreachable_prometheus gpu_with_gauge))
     = [sym_dart @ '' System Overview'', sym_rocket @ '' GPU & Accelerators'',
        sym_laptop @ '' CPU & Memory'']
   \<and> current_y (fst (build_smart_dashboard unreachable_prometheus gpu_without_gauge)) = 14
   \<and> current_y (fst (build_smart_dashboard unreachable_prometheus gpu_with_gauge)) = 25"
  by code_simp

section \<open>Facade: panel filtering\<close>

lemma filter_panels_filter:
  "filter_panels opts ps =
     filter (\<lambda>p. (include_gpu opts \<or> \<not> (sublist ''GPU'' (title p) \<or> sublist ''Accelerator'' (title p)))
                \<and> (include_processes opts \<or> \<not> sublist ''Process'' (title p))
                \<and> (include_disk opts \<or> \<not> (sublist ''Disk'' (title p) \<or> sublist ''Storage'' (title p)))
                \<and> (include_network opts \<or> \<not> sublist ''Network'' (title p))) ps"
  unfolding filter_panels_def Let_def str_in_sublist
  by (cases "include_gpu opts"; cases "include_processes opts"; cases "include_disk opts";
      cases "include_network opts") (simp_all add: conj_commute conj_left_commute cong: filter_cong)

lemma options_of_switches:
  "include_gpu (options_of data) \<longleftrightarrow> req_include_gpu data \<noteq> Some False"
  "include_processes (options_of data) \<longleftrightarrow> req_include_processes data \<noteq> Some False"
  "include_disk (options_of data) \<longleftrightarrow> req_include_disk data \<noteq> Some False"
  "include_network (options_of data) \<longleftrightarrow> req_include_network data \<noteq> Some False"
  "datasource_uid (options_of data) = get_or (req_datasource_uid data) ''prometheus-uid''"
  by (simp_all add: options_of_def get_or_def split: option.splits)

lemma generate_panels:
  "panels (gen_dashboard (generate prom data))
     = filter_panels (options_of data)
         (map (set_datasource_uid (datasource_uid (options_of data)))
            (panels (snd (discover_all prom init_generator))))"
  by (simp add: generate_def Let_def)

lemma title_set_datasource_uid: "title (set_datasource_uid u p) = title p"
  by (simp add: set_datasource_uid_def split: option.splits)

text \<open>
  Claim C7. The panel list that \<^verbatim>\<open>generate\<close> returns is the assembled list (with the
  datasource uid set, which leaves the titles alone) without the panels that a switched-off
  option names: a request with \<^verbatim>\<open>include_gpu\<close> false removes exactly the panels whose title
  contains \<^verbatim>\<open>GPU\<close> or \<^verbatim>\<open>Accelerator\<close> and keeps the others in order; likewise
  \<^verbatim>\<open>Process\<close> for \<^verbatim>\<open>include_processes\<close>, \<^verbatim>\<open>Disk\<close> or \<^verbatim>\<open>Storage\<close> for
  \<^verbatim>\<open>include_disk\<close> and \<^verbatim>\<open>Network\<close> for \<^verbatim>\<open>include_network\<close>. Applying the same filter
  to the returned list, or to any filtered list, changes nothing.
\<close>

theorem generate_filters_by_title:
  "panels (gen_dashboard (generate prom data))
     = filter (\<lambda>p. (req_include_gpu data = Some False \<longrightarrow>
                      \<not> (sublist ''GPU'' (title p) \<or> sublist ''Accelerator'' (title p)))
                \<and> (req_include_processes data = Some False \<longrightarrow> \<not> sublist ''Process'' (title p))
                \<and> (req_include_disk data = Some False \<longrightarrow>
                      \<not> (sublist ''Disk'' (title p) \<or> sublist ''Storage'' (title p)))
                \<and> (req_include_network data = Some False \<longrightarrow> \<not> sublist ''Network'' (title p)))
         (map (set_datasource_uid (get_or (req_datasource_uid data) ''prometheus-uid''))
            (panels (snd (discover_all prom init_generator))))
   \<and> (req_include_gpu data = Some False \<and> req_include_processes data \<noteq> Some False
        \<and> req_include_disk data \<noteq> Some False \<and> req_include_network data \<noteq> Some False
        \<longrightarrow> panels (gen_dashboard (generate prom data))
            = filter (\<lambda>p. \<not> (sublist ''GPU'' (title p) \<or> sublist ''Accelerator'' (title p)))
                (map (set_datasource_uid (get_or (req_datasource_uid data) ''prometheus-uid''))
                   (panels (snd (discover_all prom init_generator)))))
   \<and> title (set_datasource_uid u p) = title p
   \<and> filter_panels (options_of data) (panels (gen_dashboard (generate prom data)))
       = panels (gen_dashboard (generate prom data))
   \<and> filter_panels opts (filter_panels opts ps) = filter_panels opts ps
   \<and> (\<not> include_gpu opts \<and> include_processes opts \<and> include_disk opts \<and> include_network opts
        \<longrightarrow> filter_panels opts ps
            = filter (\<lambda>p. \<not> (sublist ''GPU'' (title p) \<or> sublist ''Accelerator'' (title p))) ps)
   \<and> (include_gpu opts \<and> \<not> include_processes opts \<and> include_disk opts \<and> include_network opts
        \<longrightarrow> filter_panels opts ps = filter (\<lambda>p. \<not> sublist ''Process'' (title p)) ps)
   \<and> (include_gpu opts \<and> include_processes opts \<and> \<not> include_disk opts \<and> include_network opts
        \<longrightarrow> filter_panels opts ps
            = filter (\<lambda>p. \<not> (sublist ''Disk'' (title p) \<or> sublist ''Storage'' (title p))) ps)
   \<and> (include_gpu opts \<and> include_processes opts \<and> include_disk opts \<and> \<not> include_network opts
        \<longrightarrow> filter_panels opts ps = filter (\<lambda>p. \<not> sublist ''Network'' (title p)) ps)"
proof -
  have whole: "panels (gen_dashboard (generate prom data))
     = filter (\<lambda>p. (req_include_gpu data = Some False \<longrightarrow>
                      \<not> (sublist ''GPU'' (title p) \<or> sublist ''Accelerator'' (title p)))
                \<and> (req_include_processes data = Some False \<longrightarrow> \<not> sublist ''Process'' (title p))
                \<and> (req_include_disk data = Some False \<longrightarrow>
                      \<not> (sublist ''Disk'' (title p) \<or> sublist ''Storage'' (title p)))
                \<and> (req_include_network data = Some False \<longrightarrow> \<not> sublist ''Network'' (title p)))
         (map (set_datasource_uid (get_or (req_datasource_uid data) ''prometheus-uid''))
            (panels (snd (discover_all prom init_generator))))"
    unfolding generate_panels filter_panels_filter options_of_switches
    by (rule filter_cong) auto
  have gpu: "req_include_gpu data = Some False \<and> req_include_processes data \<noteq> Some False
        \<and> req_include_disk data \<noteq> Some False \<and> req_include_network data \<noteq> Some False
        \<longrightarrow> panels (gen_dashboard (generate prom data))
            = filter (\<lambda>p. \<not> (sublist ''GPU'' (title p) \<or> sublist ''Accelerator'' (title p)))
                (map (set_datasource_uid (get_or (req_datasource_uid data) ''prometheus-uid''))
                   (panels (snd (discover_all prom init_generator))))"
    unfolding whole by simp
  have idem: "filter_panels opts (filter_panels opts ps) = filter_panels opts ps" for opts ps
    unfolding filter_panels_filter by simp
  have again: "filter_panels (options_of data) (panels (gen_dashboard (generate prom data)))
       = panels (gen_dashboard (generate prom data))"
    unfolding generate_panels by (rule idem)
  show ?thesis
    apply (intro conjI)
            apply (rule whole)
           apply (rule gpu)
          apply (rule title_set_datasource_uid)
         apply (rule again)
        apply (rule idem)
       apply (simp_all add: filter_panels_filter)
    done
qed

theorem generate_filters_by_title_witness:
  "(req_include_gpu no_gpu_request = Some False \<and> req_include_processes no_gpu_request \<noteq> Some False
      \<and> req_include_disk no_gpu_request \<noteq> Some False
      \<and> req_include_network no_gpu_request \<noteq> Some False)
   \<and> map title (panels (snd (discover_all gpu_prometheus init_generator)))
     = [sym_dart @ '' System Overview'', sym_rocket @ '' GPU & Accelerators'',
        ''GPU & Accelerator Utilization'', sym_laptop @ '' CPU & Memory'']
   \<and> map title (panels (gen_dashboard (generate gpu_prometheus no_gpu_request)))
     = [sym_dart @ '' System Overview'', sym_laptop @ '' CPU & Memory'']"
proof -
  have h: "req_include_gpu no_gpu_request = Some False
      \<and> req_include_processes no_gpu_request \<noteq> Some False
      \<and> req_include_disk no_gpu_request \<noteq> Some False
      \<and> req_include_network no_gpu_request \<noteq> Some False"
    by (simp add: no_gpu_request_def)
  have e: "panels (gen_dashboard (generate gpu_prometheus no_gpu_request))
      = filter (\<lambda>p. \<not> (sublist ''GPU'' (title p) \<or> sublist ''Accelerator'' (title p)))
          (map (set_datasource_uid (get_or (req_datasource_uid no_gpu_request) ''prometheus-uid''))
             (panels (snd (discover_all gpu_prometheus init_generator))))"
    by (rule mp [OF generate_filters_by_title
                      [of gpu_prometheus no_gpu_request, THEN conjunct2, THEN conjunct1] h])
  have before: "map title (panels (snd (discover_all gpu_prometheus init_generator)))
     = [sym_dart @ '' System Overview'', sym_rocket @ '' GPU & Accelerators'',
        ''GPU & Accelerator Utilization'', sym_laptop @ '' CPU & Memory'']"
    by code_simp
  have after: "map title
       (filter (\<lambda>p. \<not> (sublist ''GPU'' (title p) \<or> sublist ''Accelerator'' (title p)))
          (map (set_datasource_uid (get_or (req_datasource_uid no_gpu_request) ''prometheus-uid''))
             (panels (snd (discover_all gpu_prometheus init_generator)))))
     = [sym_dart @ '' System Overview'', sym_laptop @ '' CPU & Memory'']"
    by code_simp
  show ?thesis
    unfolding e by (rule conjI [OF h conjI [OF before after]])
qed

section \<open>Facade: dashboard import\<close>

text \<open>
  Claim C8, as amended. When the \<^verbatim>\<open>api_key\<close> member is absent or empty, or the
  \<^verbatim>\<open>dashboard\<close> member is absent or falsy (null, an empty object, ...), the import answers
  with HTTP 400 and status \<^verbatim>\<open>error\<close> and makes no call to Grafana. When the key is a
  non-empty string and the dashboard is truthy, the handler makes exactly one POST call,
  carrying the dashboard and the header \<^verbatim>\<open>Authorization: Bearer <api_key>\<close>, to
  \<^verbatim>\<open>/api/dashboards/db\<close> under the request's \<^verbatim>\<open>grafana_url\<close>: the default URL when
  the member is absent, the text \<^verbatim>\<open>None\<close> when it is null. When that call raises, the
  answer is HTTP 500 with status \<^verbatim>\<open>error\<close>.
\<close>

theorem import_requires_key_and_dashboard:
  "((api_key data = None \<or> api_key data = Some [] \<or> req_dashboard data = None
      \<or> (\<exists>j. req_dashboard data = Some j \<and> \<not> json_truthy j))
     \<longrightarrow> http_code (fst (import_to_grafana graf data)) = 400
         \<and> status (fst (import_to_grafana graf data)) = ''error''
         \<and> snd (import_to_grafana graf data) = [])
   \<and> (api_key data = Some k \<and> k \<noteq> [] \<and> req_dashboard data = Some j \<and> json_truthy j
     \<longrightarrow> snd (import_to_grafana graf data)
           = [\<lparr>post_url = (case req_grafana_url data of
                             UrlAbsent \<Rightarrow> ''http://localhost:3000''
                           | UrlNull \<Rightarrow> ''None''
                           | Url u \<Rightarrow> u) @ ''/api/dashboards/db'',
               authorization = ''Bearer '' @ k, content_type = ''application/json'',
               post_dashboard = j, overwrite = True\<rparr>])
   \<and> (api_key data = Some k \<and> k \<noteq> [] \<and> req_dashboard data = Some j \<and> json_truthy j
        \<and> (\<exists>e. dashboards_db graf (hd (snd (import_to_grafana graf data))) = Failure e)
     \<longrightarrow> http_code (fst (import_to_grafana graf data)) = 500
         \<and> status (fst (import_to_grafana graf data)) = ''error'')"
proof -
  have rejected: "(api_key data = None \<or> api_key data = Some [] \<or> req_dashboard data = None
      \<or> (\<exists>j. req_dashboard data = Some j \<and> \<not> json_truthy j))
     \<longrightarrow> http_code (fst (import_to_grafana graf data)) = 400
         \<and> status (fst (import_to_grafana graf data)) = ''error''
         \<and> snd (import_to_grafana graf data) = []"
    by (auto simp: import_to_grafana_def client_error_def Let_def split: option.splits)
  have call: "snd (import_to_grafana graf data)
           = [\<lparr>post_url = (case req_grafana_url data of
                             UrlAbsent \<Rightarrow> ''http://localhost:3000''
                           | UrlNull \<Rightarrow> ''None''
                           | Url u \<Rightarrow> u) @ ''/api/dashboards/db'',
               authorization = ''Bearer '' @ k, content_type = ''application/json'',
               post_dashboard = j, overwrite = True\<rparr>]"
    if "api_key data = Some k \<and> k \<noteq> [] \<and> req_dashboard data = Some j \<and> json_truthy j"
    using that
    by (auto simp: import_to_grafana_def grafana_url_text_def Let_def
             split: reply.splits decoded.splits json.splits)
  have raised: "http_code (fst (import_to_grafana graf data)) = 500
         \<and> status (fst (import_to_grafana graf data)) = ''error''"
    if c: "api_key data = Some k \<and> k \<noteq> [] \<and> req_dashboard data = Some j \<and> json_truthy j"
      and f: "\<exists>e. dashboards_db graf (hd (snd (import_to_grafana graf data))) = Failure e"
  proof -
    from f obtain e where "dashboards_db graf (hd (snd (import_to_grafana graf data))) = Failure e" ..
    then have "dashboards_db graf
        \<lparr>post_url = grafana_url_text (req_grafana_url data) @ ''/api/dashboards/db'',
         authorization = ''Bearer '' @ k, content_type = ''application/json'',
         post_dashboard = j, overwrite = True\<rparr> = Failure e"
      unfolding call [OF c] by (simp add: grafana_url_text_def)
    then show ?thesis
      using c by (simp add: import_to_grafana_def server_error_def Let_def)
  qed
  show ?thesis
    using rejected call raised by (intro conjI impI) (assumption | elim conjE | simp)+
qed

theorem import_requires_key_and_dashboard_witness:
  "api_key null_url_import_request = Some ''secret'' \<and> ''secret'' \<noteq> []
   \<and> req_dashboard null_url_import_request = Some (JObj [(''uid'', JStr ''scrypted-auto'')])
   \<and> json_truthy (JObj [(''uid'', JStr ''scrypted-auto'')])
   \<and> snd (import_to_grafana scheme_checking_grafana null_url_import_request)
     = [\<lparr>post_url = ''None/api/dashboards/db'',
         authorization = ''Bearer secret'', content_type = ''application/json'',
         post_dashboard = JObj [(''uid'', JStr ''scrypted-auto'')], overwrite = True\<rparr>]
   \<and> http_code (fst (import_to_grafana scheme_checking_grafana null_url_import_request)) = 500
   \<and> snd (import_to_grafana scheme_checking_grafana good_import_request)
     = [\<lparr>post_url = ''http://localhost:3000/api/dashboards/db'',
         authorization = ''Bearer secret'', content_type = ''application/json'',
         post_dashboard = JObj [(''uid'', JStr ''scrypted-auto'')], overwrite = True\<rparr>]
   \<and> api_key empty_key_request = Some []
   \<and> http_code (fst (import_to_grafana scheme_checking_grafana empty_key_request)) = 400
   \<and> status (fst (import_to_grafana scheme_checking_grafana empty_key_request)) = ''error''
   \<and> snd (import_to_grafana scheme_checking_grafana empty_key_request) = []"
  using import_requires_key_and_dashboard
      [of null_url_import_request scheme_checking_grafana "''secret''"
          "JObj [(''uid'', JStr ''scrypted-auto'')]"]
    import_requires_key_and_dashboard
      [of good_import_request scheme_checking_grafana "''secret''"
          "JObj [(''uid'', JStr ''scrypted-auto'')]"]
    import_requires_key_and_dashboard
      [of empty_key_request scheme_checking_grafana "''secret''"
          "JObj [(''uid'', JStr ''scrypted-auto'')]"]
  by (simp add: good_import_request_def empty_key_request_def null_url_import_request_def
        scheme_checking_grafana_def)

text \<open>
  Claim C8 as stated fails in its last part: a request in which both members are present,
  the key being the empty string, is answered with HTTP 400 and nothing is forwarded.
\<close>

theorem import_empty_key_not_forwarded:
  "api_key empty_key_request \<noteq> None \<and> req_dashboard empty_key_request \<noteq> None
   \<and> http_code (fst (import_to_grafana accepting_grafana empty_key_request)) = 400
   \<and> snd (import_to_grafana accepting_grafana empty_key_request) = []"
  by (simp add: import_to_grafana_def empty_key_request_def client_error_def)

section \<open>Facade: setup validation\<close>

lemma check_exporters_recommendations:
  "r \<in> set (recommendations v) \<Longrightarrow> r \<in> set (recommendations (check_exporters ms v))"
  by (simp add: check_exporters_def Let_def)

lemma check_exporters_grafana: "grafana_check (check_exporters ms v) = grafana_check v"
  by (simp add: check_exporters_def Let_def)

text \<open>
  Claim C9. When the Prometheus health check answers 200 and the Grafana health check
  raises, the validation result has \<^verbatim>\<open>ready\<close> false, the Grafana status
  \<^verbatim>\<open>unreachable\<close>, and the Grafana installation hint among the recommendations.
\<close>

theorem validate_grafana_unreachable:
  assumes "healthy prom = Response 200 body" and "health graf = Failure e"
  shows "ready (validate_setup prom graf) = False
       \<and> check_status (grafana_check (validate_setup prom graf)) = ''unreachable''
       \<and> grafana_hint \<in> set (recommendations (validate_setup prom graf))"
  using assms
  by (auto simp: validate_setup_def run_health_check_def Let_def add_prometheus_issue_def
        check_exporters_grafana validation.defs validation_result.defs
        intro!: check_exporters_recommendations
        split: reply.splits decoded.splits)

theorem validate_grafana_unreachable_witness:
  "healthy healthy_prometheus = Response 200 (Json ())
   \<and> health unreachable_grafana = Failure ''connection refused''
   \<and> ready (validate_setup healthy_prometheus unreachable_grafana) = False
   \<and> check_status (grafana_check (validate_setup healthy_prometheus unreachable_grafana))
     = ''unreachable''
   \<and> grafana_hint \<in> set (recommendations (validate_setup healthy_prometheus unreachable_grafana))"
proof -
  have a: "healthy healthy_prometheus = Response 200 (Json ())"
    by (simp add: healthy_prometheus_def)
  have b: "health unreachable_grafana = Failure ''connection refused''"
    by (simp add: unreachable_grafana_def)
  show ?thesis
    using a b validate_grafana_unreachable [OF a b] by simp
qed

section \<open>Node identification\<close>

lemma identify_instance_skip:
  "\<not> str_in '':'' inst \<Longrightarrow> identify_instance prom inst g = g"
  by (simp add: identify_instance_def)

lemma identify_instance_other:
  "i \<noteq> inst \<Longrightarrow> map_of (nodes (identify_instance prom i g)) inst = map_of (nodes g) inst"
  by (simp add: identify_instance_def Let_def update_conv' split: prod.splits)

lemma identify_loop_keeps:
  "\<not> str_in '':'' inst \<Longrightarrow> map_of (nodes (identify_loop prom insts g)) inst = map_of (nodes g) inst"
proof (induction insts arbitrary: g)
  case Nil
  show ?case by simp
next
  case (Cons i insts)
  show ?case
  proof (cases "i = inst")
    case True
    with Cons show ?thesis by (simp add: identify_instance_skip)
  next
    case False
    with Cons show ?thesis by (simp add: identify_instance_other)
  qed
qed

lemma identify_loop_filter:
  "\<not> str_in '':'' inst \<Longrightarrow>
   identify_loop prom (filter (\<lambda>i. i \<noteq> inst) insts) g = identify_loop prom insts g"
  by (induction insts arbitrary: g) (simp_all add: identify_instance_skip)

lemma identify_nodes_keeps:
  "\<not> str_in '':'' inst \<Longrightarrow> map_of (nodes (identify_nodes prom g)) inst = map_of (nodes g) inst"
  by (simp add: identify_nodes_def identify_loop_keeps split: reply.splits decoded.splits)

lemma query_metric_cong:
  "instant_query p' = instant_query p \<Longrightarrow> query_metric p' = query_metric p"
  by (simp add: query_metric_def fun_eq_iff)

lemma hostname_loop_cong:
  "query_metric p' = query_metric p \<Longrightarrow> hostname_loop p' g a ms = hostname_loop p g a ms"
  by (induction ms) (simp_all split: option.splits)

lemma get_hostname_for_ip_cong:
  "query_metric p' = query_metric p \<Longrightarrow> get_hostname_for_ip p' = get_hostname_for_ip p"
  by (simp add: fun_eq_iff get_hostname_for_ip_def hostname_loop_cong [of p' p]
        del: hostname_loop.simps)

lemma identify_instance_cong:
  "query_metric p' = query_metric p \<Longrightarrow> identify_instance p' i g = identify_instance p i g"
  by (simp add: identify_instance_def get_hostname_for_ip_cong [of p' p])

lemma identify_loop_cong:
  "query_metric p' = query_metric p \<Longrightarrow> identify_loop p' insts g = identify_loop p insts g"
  by (induction insts arbitrary: g) (simp_all add: identify_instance_cong [of p' p])

lemma set_of_cong: "set_rank p' = set_rank p \<Longrightarrow> set_of p' = set_of p"
  by (rule ext) (simp add: set_of_def)

lemma detect_hardware_cong:
  "query_metric p' = query_metric p \<Longrightarrow> set_rank p' = set_rank p \<Longrightarrow>
   detect_hardware p' g = detect_hardware p g"
  by (simp add: detect_hardware_def detect_node_def set_of_cong [of p' p])

lemma discover_metrics_cong:
  "label_names p' = label_names p \<Longrightarrow> set_rank p' = set_rank p \<Longrightarrow>
   discover_metrics p' g = discover_metrics p g"
  by (simp add: discover_metrics_def set_of_cong [of p' p] split: reply.splits decoded.splits)

lemma targets_cong:
  assumes "query_metric p' = query_metric p"
  shows "disk_io_targets_of p' = disk_io_targets_of p"
    and "disk_usage_targets_of p' = disk_usage_targets_of p"
    and "network_targets_of p' = network_targets_of p"
  using assms
  by (simp_all add: fun_eq_iff disk_io_targets_of_def disk_usage_targets_of_def
        network_targets_of_def)

lemma build_smart_dashboard_cong:
  assumes "query_metric p' = query_metric p"
  shows "build_smart_dashboard p' g = build_smart_dashboard p g"
proof -
  have d: "add_disk_panels p' = add_disk_panels p"
    by (simp add: fun_eq_iff add_disk_panels.simps build_disk_io_targets_def
          build_disk_usage_targets_def targets_cong [OF assms])
  have n: "add_network_panels p' = add_network_panels p"
    by (simp add: fun_eq_iff add_network_panels.simps build_network_targets_def
          targets_cong [OF assms])
  show ?thesis
    by (simp add: build_smart_dashboard_def disk_section_def network_section_def d n)
qed

text \<open>
  Claim C10. An instance string without a colon gets no \<^verbatim>\<open>NodeInfo\<close> entry: node
  identification leaves the node map at that key as it was, so after identification on a
  new generator the string is not a key of the node map; and the whole discovery and
  assembly give the same state and dashboard as when the instance endpoint had not
  listed the string at all.
\<close>

theorem identify_nodes_skips_without_colon:
  assumes "\<not> str_in '':'' inst"
  shows "map_of (nodes (identify_nodes prom g)) inst = map_of (nodes g) inst
       \<and> inst \<notin> fst ` set (nodes (identify_nodes prom init_generator))
       \<and> (label_instances prom = Response 200 (Json (Some insts)) \<longrightarrow>
            discover_all
              (prom\<lparr>label_instances := Response 200 (Json (Some (filter (\<lambda>i. i \<noteq> inst) insts)))\<rparr>) g
            = discover_all prom g)"
proof -
  let ?p = "prom\<lparr>label_instances := Response 200 (Json (Some (filter (\<lambda>i. i \<noteq> inst) insts)))\<rparr>"
  have keep: "map_of (nodes (identify_nodes prom g)) inst = map_of (nodes g) inst"
    by (rule identify_nodes_keeps [OF assms])
  have "map_of (nodes (identify_nodes prom init_generator)) inst = None"
    by (simp add: identify_nodes_keeps [OF assms] init_generator_def)
  then have absent: "inst \<notin> fst ` set (nodes (identify_nodes prom init_generator))"
    by (simp add: map_of_eq_None_iff)
  have q: "query_metric ?p = query_metric prom"
    by (rule query_metric_cong) simp
  have all: "discover_all ?p g = discover_all prom g"
    if insts: "label_instances prom = Response 200 (Json (Some insts))"
  proof -
    have m: "discover_metrics ?p g = discover_metrics prom g"
      by (rule discover_metrics_cong) simp_all
    have h: "detect_hardware ?p = detect_hardware prom"
      by (rule ext, rule detect_hardware_cong [OF q]) simp
    have "identify_nodes ?p (discover_metrics prom g)
        = identify_loop ?p (filter (\<lambda>i. i \<noteq> inst) insts) (discover_metrics prom g)"
      by (simp add: identify_nodes_def)
    also have "\<dots> = identify_loop prom (filter (\<lambda>i. i \<noteq> inst) insts) (discover_metrics prom g)"
      by (rule identify_loop_cong [OF q])
    also have "\<dots> = identify_loop prom insts (discover_metrics prom g)"
      by (rule identify_loop_filter [OF assms])
    also have "\<dots> = identify_nodes prom (discover_metrics prom g)"
      by (simp add: identify_nodes_def insts)
    finally have i: "identify_nodes ?p (discover_metrics prom g)
        = identify_nodes prom (discover_metrics prom g)" .
    show ?thesis
      by (simp add: discover_all_def m i h build_smart_dashboard_cong [OF q])
  qed
  show ?thesis
    using keep absent all by blast
qed

theorem identify_nodes_skips_without_colon_witness:
  "\<not> str_in '':'' ''localhost''
   \<and> map_of (nodes (identify_nodes healthy_prometheus init_generator)) ''localhost'' = None
   \<and> ''localhost'' \<notin> fst ` set (nodes (identify_nodes healthy_prometheus init_generator))"
proof -
  have a: "\<not> str_in '':'' ''localhost''"
    by simp
  show ?thesis
    using a identify_nodes_skips_without_colon [OF a, of healthy_prometheus init_generator "[]"]
    by (simp add: init_generator_def)
qed

end
